theory Spec2Isabelle
  imports Complex_Main
begin

section \<open>Data model (src/types.ts)\<close>

text \<open>
  A JavaScript \<open>number\<close> that carries a millisecond count, a round or a nonce: either
  \<open>NaN\<close> or an integer. \<open>Date.now()\<close> is integer valued, and on integers below
  \<open>2^53\<close> the additions, subtractions and comparisons of the source are exact.
\<close>

datatype jsnumber = NaN | Num int

datatype ChainType = ALGORAND | ETHEREUM

datatype BridgeStatus = PENDING | LOCKED | MINTED | BURNED | RELEASED | FAILED

section \<open>Timeout check (src/utils.ts, isTransactionTimedOut)\<close>

text \<open>
  \<open>now\<close> is the value \<open>Date.now()\<close> returns at the call. A \<open>throw\<close> is the
  left injection, carrying the message of the \<open>Error\<close>.
\<close>

definition isTransactionTimedOut :: "int \<Rightarrow> jsnumber \<Rightarrow> jsnumber \<Rightarrow> string + bool" where
  "isTransactionTimedOut now timestamp timeoutMs =
     (case timestamp of
        NaN \<Rightarrow> Inl ''Invalid transaction timestamp''
      | Num ts \<Rightarrow>
          if ts \<le> 0 then Inl ''Invalid transaction timestamp''
          else (case timeoutMs of
                  NaN \<Rightarrow> Inl ''Invalid timeout value''
                | Num tm \<Rightarrow>
                    if tm \<le> 0 then Inl ''Invalid timeout value''
                    else if ts > now + 300000 then Inr False
                    else Inr (now - ts > tm)))"

section \<open>Arbitrary-precision amounts (bignumber.js, default configuration)\<close>

text \<open>
  A \<open>BigNumber\<close> is \<open>NaN\<close>, an infinity (the flag says negative), the negative zero, or a
  finite decimal, held here as a rational (\<open>BFin 0\<close> is the positive zero). The repository
  never changes the library's configuration. So a division rounds to 20 decimal places,
  half away from zero (\<open>DECIMAL_PLACES = 20\<close>, \<open>ROUNDING_MODE = ROUND_HALF_UP\<close>); a
  product and a non-negative integer power are not rounded; and every result whose
  decimal exponent exceeds \<open>MAX_EXP = 1e7\<close> becomes an infinity, every non-zero result
  whose exponent is below \<open>-1e7\<close> a zero (\<open>bn_range\<close>).
\<close>

datatype bignumber = BNaN | BInf bool | BNegZero | BFin rat

fun bn_isNaN :: "bignumber \<Rightarrow> bool" where
  "bn_isNaN BNaN = True"
| "bn_isNaN _ = False"

fun bn_isFinite :: "bignumber \<Rightarrow> bool" where
  "bn_isFinite BNaN = False"
| "bn_isFinite (BInf _) = False"
| "bn_isFinite _ = True"

fun bn_isZero :: "bignumber \<Rightarrow> bool" where
  "bn_isZero BNegZero = True"
| "bn_isZero (BFin r) = (r = 0)"
| "bn_isZero _ = False"

text \<open>The sign \<open>s < 0\<close> of a BigNumber; \<open>isPositive()\<close> is the sign test \<open>s > 0\<close>, which
  holds of the positive zero.\<close>

fun bn_isNegative :: "bignumber \<Rightarrow> bool" where
  "bn_isNegative BNaN = False"
| "bn_isNegative (BInf negative) = negative"
| "bn_isNegative BNegZero = True"
| "bn_isNegative (BFin r) = (r < 0)"

fun bn_isPositive :: "bignumber \<Rightarrow> bool" where
  "bn_isPositive BNaN = False"
| "bn_isPositive (BInf negative) = (\<not> negative)"
| "bn_isPositive BNegZero = False"
| "bn_isPositive (BFin r) = (0 \<le> r)"

text \<open>The numeric value of a finite BigNumber (both zeros are 0).\<close>

fun bn_value :: "bignumber \<Rightarrow> rat" where
  "bn_value (BFin r) = r"
| "bn_value _ = 0"

definition MAX_EXP :: nat where
  "MAX_EXP = 10000000"

definition signed_zero :: "bool \<Rightarrow> bignumber" where
  "signed_zero negative = (if negative then BNegZero else BFin 0)"

text \<open>
  The range check that ends every arithmetic operation: overflow to an infinity when
  the value is \<open>10 ^ (MAX_EXP + 1)\<close> or more in magnitude, underflow to a zero when it is
  below \<open>10 ^ - MAX_EXP\<close>. \<open>bn_inRange\<close> holds of the values a finite BigNumber can have.
\<close>

definition bn_range :: "rat \<Rightarrow> bignumber" where
  "bn_range r =
     (if 10 ^ (MAX_EXP + 1) \<le> \<bar>r\<bar> then BInf (r < 0)
      else if \<bar>r\<bar> < 1 / 10 ^ MAX_EXP then signed_zero (r < 0)
      else BFin r)"

definition bn_inRange :: "rat \<Rightarrow> bool" where
  "bn_inRange r = (r = 0 \<or> (1 / 10 ^ MAX_EXP \<le> \<bar>r\<bar> \<and> \<bar>r\<bar> < 10 ^ (MAX_EXP + 1)))"

definition round_dp :: "rat \<Rightarrow> bignumber" where
  "round_dp q =
     (let m = \<lfloor>\<bar>q\<bar> * 10 ^ 20 + 1 / 2\<rfloor>
      in if q < 0 then (if m = 0 then BNegZero else BFin (- (of_int m / 10 ^ 20)))
         else BFin (of_int m / 10 ^ 20))"

definition bn_round :: "rat \<Rightarrow> bignumber" where
  "bn_round q = (case round_dp q of BFin v \<Rightarrow> bn_range v | z \<Rightarrow> z)"

text \<open>\<open>new BigNumber(10).pow(n)\<close> for a non-negative integer \<open>n\<close>.\<close>

definition bn_pow10 :: "nat \<Rightarrow> bignumber" where
  "bn_pow10 n = (if MAX_EXP < n then BInf False else BFin (10 ^ n))"

text \<open>\<open>x.times(y)\<close> and \<open>x.div(y)\<close>.\<close>

definition bn_times :: "bignumber \<Rightarrow> bignumber \<Rightarrow> bignumber" where
  "bn_times x y =
     (if bn_isNaN x \<or> bn_isNaN y then BNaN
      else if \<not> bn_isFinite x \<or> \<not> bn_isFinite y then
        (if bn_isZero x \<or> bn_isZero y then BNaN
         else BInf (bn_isNegative x \<noteq> bn_isNegative y))
      else if bn_isZero x \<or> bn_isZero y then signed_zero (bn_isNegative x \<noteq> bn_isNegative y)
      else bn_range (bn_value x * bn_value y))"

definition bn_div :: "bignumber \<Rightarrow> bignumber \<Rightarrow> bignumber" where
  "bn_div x y =
     (if bn_isNaN x \<or> bn_isNaN y then BNaN
      else if \<not> bn_isFinite x then
        (if \<not> bn_isFinite y then BNaN else BInf (bn_isNegative x \<noteq> bn_isNegative y))
      else if \<not> bn_isFinite y then signed_zero (bn_isNegative x \<noteq> bn_isNegative y)
      else if bn_isZero y then
        (if bn_isZero x then BNaN else BInf (bn_isNegative x \<noteq> bn_isNegative y))
      else if bn_isZero x then signed_zero (bn_isNegative x \<noteq> bn_isNegative y)
      else bn_round (bn_value x / bn_value y))"

section \<open>Amount conversion (src/utils.ts, convertAmount)\<close>

text \<open>
  The amount is taken after \<open>new BigNumber(amount)\<close>; the decimal counts are integers.
  The \<open>catch\<close> rethrows what the body throws, so each \<open>throw\<close> is a left injection.
\<close>

definition convertAmount :: "bignumber \<Rightarrow> int \<Rightarrow> int \<Rightarrow> string + bignumber" where
  "convertAmount amount fromDecimals toDecimals =
     (if fromDecimals < 0 \<or> toDecimals < 0 then Inl ''Decimal values must be non-negative''
      else let value = amount in
        if \<not> bn_isFinite value \<or> bn_isNaN value then Inl ''Invalid amount value''
        else if fromDecimals = toDecimals then Inr value
        else let decimalDifference = toDecimals - fromDecimals;
                 factor = bn_pow10 (nat \<bar>decimalDifference\<bar>)
             in if decimalDifference > 0 then Inr (bn_times value factor)
                else Inr (bn_div value factor))"

section \<open>Transactions, configuration and results (src/types.ts)\<close>

text \<open>
  The interfaces of \<open>types.ts\<close>, with the fields the modelled code reads. A field name
  that two interfaces share carries a prefix. Optional fields are options.
\<close>

record BridgeTransaction =
  bt_id :: string
  sourceChain :: ChainType
  targetChain :: ChainType
  sourceAssetId :: string
  targetAssetId :: string
  amount :: bignumber
  sender :: string
  receiver :: string
  status :: BridgeStatus
  sourceTransactionId :: "string option"
  targetTransactionId :: "string option"
  timestamp :: jsnumber
  nonce :: jsnumber

record BridgeConfig =
  verifiers :: "string list"
  minVerifierSignatures :: int
  bridgeAccount :: "string option"
  targetChainType :: ChainType
  carbonAssetId :: string
  tokenContractAddress :: string

record VerificationResult =
  isValid :: bool
  signatures :: "string list"
  vr_timestamp :: int
  vr_error :: "string option"

record BridgeResult =
  success :: bool
  transactionId :: string
  bridgeId :: string
  br_status :: BridgeStatus
  br_error :: "string option"

datatype BridgeEventType = LOCK | MINT | BURN | RELEASE | ERROR | TIMEOUT | VERIFICATION

datatype details =
    NoDetails
  | ErrorDetails string
  | VerificationDetails bool "string list"
  | SubmissionDetails string

record BridgeEvent =
  ev_type :: BridgeEventType
  ev_transaction :: BridgeTransaction
  ev_timestamp :: int
  details :: details

section \<open>Library functions the code calls\<close>

text \<open>
  The functions of Node's \<open>crypto\<close>, of \<open>algosdk\<close>, of \<open>ethers\<close>, of \<open>bignumber.js\<close> and
  of the language that the modelled code calls and that no claim constrains. They are
  parameters of the model. Byte arrays are strings; a function that can throw returns the
  message on the left. \<open>toNumber\<close> is \<open>BigNumber.prototype.toNumber\<close>, the nearest
  double, given by its value.
\<close>

record primitives =
  sha256hex :: "string \<Rightarrow> string"
  numberToString :: "jsnumber \<Rightarrow> string"
  amountToString :: "bignumber \<Rightarrow> string"
  parseBigNumber :: "string \<Rightarrow> bignumber"
  toNumber :: "bignumber \<Rightarrow> bignumber"
  base64Decode :: "string \<Rightarrow> string"
  base64Encode :: "string \<Rightarrow> string"
  hexDecode :: "string \<Rightarrow> string"
  mnemonicToSecretKey :: "string \<Rightarrow> string + string"
  signBytes :: "string \<Rightarrow> string \<Rightarrow> string + string"
  walletSignMessage :: "string \<Rightarrow> string \<Rightarrow> string + string"
  decodeAddress :: "string \<Rightarrow> string + string"
  verifyBytes :: "string \<Rightarrow> string \<Rightarrow> string \<Rightarrow> string + bool"
  hashMessage :: "string \<Rightarrow> string"
  recoverAddress :: "string \<Rightarrow> string \<Rightarrow> string + string"
  toLowerCase :: "string \<Rightarrow> string"
  isValidAddress :: "string \<Rightarrow> bool"
  isAddress :: "string \<Rightarrow> bool"
  getAddress :: "string \<Rightarrow> string"

section \<open>Transaction hash (src/utils.ts, createTransactionHash)\<close>

fun chainTypeString :: "ChainType \<Rightarrow> string" where
  "chainTypeString ALGORAND = ''algorand''"
| "chainTypeString ETHEREUM = ''ethereum''"

text \<open>
  Successive \<open>update\<close> calls on one hash object hash the concatenation of their
  arguments.
\<close>

definition createTransactionHash ::
  "primitives \<Rightarrow> ChainType \<Rightarrow> ChainType \<Rightarrow> string \<Rightarrow> string \<Rightarrow> string \<Rightarrow> jsnumber \<Rightarrow> string" where
  "createTransactionHash P sourceChain' targetChain' sender' receiver' amount' nonce' =
     sha256hex P (chainTypeString sourceChain' @ chainTypeString targetChain' @ sender'
                  @ receiver' @ amount' @ numberToString P nonce')"

section \<open>Verifier responses (src/verification.ts, requestVerifierSignature)\<close>

text \<open>A parsed JSON value; an object is the list of its properties.\<close>

datatype json =
    JNull
  | JBool bool
  | JNumber int
  | JString string
  | JArray "json list"
  | JObject "(string \<times> json) list"

text \<open>
  What the \<open>fetch\<close> of one verifier comes to: it rejects (network error), it is aborted
  by the 30 s timer, or it resolves with a response whose body parses as JSON or does
  not.
\<close>

datatype body = Malformed | Parsed json

datatype fetch_outcome = FetchError | Aborted | Response bool int body

text \<open>
  The test \<open>typeof data === 'object' && data !== null && 'signature' in data &&
  typeof data.signature === 'string'\<close>, which the source writes twice.
\<close>

fun hasStringSignature :: "json \<Rightarrow> bool" where
  "hasStringSignature (JObject props) =
     (case map_of props ''signature'' of Some (JString _) \<Rightarrow> True | _ \<Rightarrow> False)"
| "hasStringSignature _ = False"

fun signatureOf :: "json \<Rightarrow> string option" where
  "signatureOf (JObject props) =
     (case map_of props ''signature'' of Some (JString sig) \<Rightarrow> Some sig | _ \<Rightarrow> None)"
| "signatureOf _ = None"

section \<open>The world outside one call\<close>

text \<open>
  What the clock, the two chains and the verifier fleet answer during one call. The two
  on-chain proof checks of \<open>verification.ts\<close> catch every exception and return a
  boolean; their answer for a transaction is a parameter here, and so is the outcome of
  each call into the chain SDKs. \<open>walletConfigured\<close> says whether the Ethereum handler
  was given a private key. The general theorems hold for every answer of the two checks.
  The examples take the answer of the target-chain check to be false: it accepts a log
  only if \<open>parsedLog.args.receiver\<close>, which the decoder returns as a hash object for a
  \<open>string indexed\<close> parameter, is strictly equal to the receiver string.
\<close>

record env =
  dateNow :: int
  verifyAlgorandTransaction :: "BridgeTransaction \<Rightarrow> bool"
  verifyTargetChainTransaction :: "BridgeTransaction \<Rightarrow> bool"
  fetchSign :: "string \<Rightarrow> string \<Rightarrow> fetch_outcome"
  generateBridgeId :: string
  getTransactionParams :: "string + jsnumber"
  buildLockGroup :: "string \<Rightarrow> string \<Rightarrow> bignumber \<Rightarrow> string + string"
  buildReleaseCall :: "string \<Rightarrow> string \<Rightarrow> bignumber \<Rightarrow> string + string"
  sendRawTransaction :: "string \<Rightarrow> string + string"
  walletConfigured :: bool
  searchForApplications :: "string + string list list"
  getBridgeStatus :: "string \<Rightarrow> string + int"

text \<open>
  \<open>None\<close> is the \<open>null\<close> the function returns. The outcome of the \<open>fetch\<close> comes from
  the world; the timer only decides which outcome it is.
\<close>

definition requestVerifierSignature :: "env \<Rightarrow> string \<Rightarrow> string \<Rightarrow> string option" where
  "requestVerifierSignature E verifierUrl transactionHash =
     (case fetchSign E verifierUrl transactionHash of
        FetchError \<Rightarrow> None
      | Aborted \<Rightarrow> None
      | Response ok httpStatus b \<Rightarrow>
          if \<not> ok then None
          else (case b of
                  Malformed \<Rightarrow> None
                | Parsed data \<Rightarrow>
                    if hasStringSignature data then None
                    else if hasStringSignature data then signatureOf data
                    else None))"

section \<open>Signature collection and verification (src/verification.ts)\<close>

text \<open>
  \<open>signatureRequests\<close> are the calls \<open>requestVerifierSignature(verifierUrl,
  transactionHash, timeoutMs)\<close> the loop over \<open>config.verifiers\<close> makes, in order.
\<close>

definition signatureRequests ::
  "primitives \<Rightarrow> BridgeTransaction \<Rightarrow> BridgeConfig \<Rightarrow> (string \<times> string) list" where
  "signatureRequests P transaction config =
     (let transactionHash =
            createTransactionHash P (sourceChain transaction) (targetChain transaction)
              (sender transaction) (receiver transaction)
              (amountToString P (amount transaction)) (nonce transaction)
      in map (\<lambda>verifierUrl. (verifierUrl, transactionHash)) (verifiers config))"

definition collectVerifierSignatures ::
  "primitives \<Rightarrow> env \<Rightarrow> BridgeTransaction \<Rightarrow> BridgeConfig \<Rightarrow> string list" where
  "collectVerifierSignatures P E transaction config =
     (let results = map (\<lambda>(verifierUrl, transactionHash).
                      requestVerifierSignature E verifierUrl transactionHash)
                    (signatureRequests P transaction config)
      in map the (filter (\<lambda>sig. sig \<noteq> None) results))"

text \<open>
  The result of \<open>verifyTransaction\<close> and the events it emits, in order. An exception
  inside the \<open>try\<close> (the timeout check throws on a bad timestamp) is caught and turned
  into an invalid result.
\<close>

definition verifyTransaction ::
  "primitives \<Rightarrow> env \<Rightarrow> BridgeTransaction \<Rightarrow> BridgeConfig
     \<Rightarrow> VerificationResult \<times> BridgeEvent list" where
  "verifyTransaction P E transaction config =
     (case isTransactionTimedOut (dateNow E) (timestamp transaction) (Num 3600000) of
        Inl message \<Rightarrow>
          (\<lparr>isValid = False, signatures = [], vr_timestamp = dateNow E,
            vr_error = Some (if message = [] then ''Unknown verification error'' else message)\<rparr>, [])
      | Inr True \<Rightarrow>
          (\<lparr>isValid = False, signatures = [], vr_timestamp = dateNow E,
            vr_error = Some ''Transaction timed out''\<rparr>,
           [\<lparr>ev_type = TIMEOUT, ev_transaction = transaction, ev_timestamp = dateNow E,
             details = NoDetails\<rparr>])
      | Inr False \<Rightarrow>
          (let isValid' =
                 (if sourceChain transaction = ALGORAND
                  then verifyAlgorandTransaction E transaction
                  else verifyTargetChainTransaction E transaction)
           in if \<not> isValid' then
                (\<lparr>isValid = False, signatures = [], vr_timestamp = dateNow E,
                  vr_error = Some ''Transaction verification failed''\<rparr>, [])
              else
                (let signatures' = collectVerifierSignatures P E transaction config;
                     hasEnoughSignatures =
                       (int (length signatures') \<ge> minVerifierSignatures config)
                 in (\<lparr>isValid = hasEnoughSignatures, signatures = signatures',
                      vr_timestamp = dateNow E, vr_error = None\<rparr>,
                     [\<lparr>ev_type = VERIFICATION, ev_transaction = transaction,
                       ev_timestamp = dateNow E,
                       details = VerificationDetails hasEnoughSignatures signatures'\<rparr>]))))"

text \<open>
  \<open>signTransaction\<close> and \<open>verifySignature\<close> first compute the hash, then sign or check it
  by chain; \<open>signHash\<close> and \<open>verifyHash\<close> are these second parts. The outer \<open>catch\<close> of
  \<open>verifySignature\<close> returns false.
\<close>

definition signHash :: "primitives \<Rightarrow> ChainType \<Rightarrow> string \<Rightarrow> string \<Rightarrow> string + string" where
  "signHash P chain transactionHash privateKey =
     (case chain of
        ALGORAND \<Rightarrow>
          (case (if length privateKey = 58 \<and> take 10 privateKey = ''PrivateKey''
                 then Inr (base64Decode P (drop 10 privateKey))
                 else if length privateKey = 64 then Inr (hexDecode P privateKey)
                 else (case mnemonicToSecretKey P privateKey of
                         Inl message \<Rightarrow>
                           Inl (''Invalid Algorand private key format: '' @ message)
                       | Inr sk \<Rightarrow> Inr sk)) of
             Inl message \<Rightarrow> Inl (''Algorand signing error: '' @ message)
           | Inr sk \<Rightarrow>
               (case signBytes P transactionHash sk of
                  Inl message \<Rightarrow> Inl (''Algorand signing error: '' @ message)
                | Inr signedBytes \<Rightarrow> Inr (base64Encode P signedBytes)))
      | ETHEREUM \<Rightarrow>
          (case walletSignMessage P privateKey transactionHash of
             Inl message \<Rightarrow> Inl (''Ethereum signing error: '' @ message)
           | Inr signature \<Rightarrow> Inr signature))"

definition signTransaction :: "primitives \<Rightarrow> BridgeTransaction \<Rightarrow> string \<Rightarrow> string + string" where
  "signTransaction P transaction privateKey =
     (let transactionHash =
            createTransactionHash P (sourceChain transaction) (targetChain transaction)
              (sender transaction) (receiver transaction)
              (amountToString P (amount transaction)) (nonce transaction)
      in signHash P (sourceChain transaction) transactionHash privateKey)"

definition verifyHash ::
  "primitives \<Rightarrow> ChainType \<Rightarrow> string \<Rightarrow> string \<Rightarrow> string \<Rightarrow> bool" where
  "verifyHash P chain transactionHash signature publicKey =
     (case chain of
        ALGORAND \<Rightarrow>
          (let signatureBytes = base64Decode P signature
           in case (if take 9 publicKey = ''PublicKey''
                    then Inr (base64Decode P (drop 9 publicKey))
                    else decodeAddress P publicKey) of
                Inl message \<Rightarrow> False
              | Inr pkBytes \<Rightarrow>
                  (case verifyBytes P transactionHash signatureBytes
                          (base64Encode P pkBytes) of
                     Inl message \<Rightarrow> False
                   | Inr valid \<Rightarrow> valid))
      | ETHEREUM \<Rightarrow>
          (case recoverAddress P (hashMessage P transactionHash) signature of
             Inl message \<Rightarrow> False
           | Inr recoveredAddress \<Rightarrow>
               toLowerCase P recoveredAddress = toLowerCase P publicKey))"

definition verifySignature ::
  "primitives \<Rightarrow> BridgeTransaction \<Rightarrow> string \<Rightarrow> string \<Rightarrow> bool" where
  "verifySignature P transaction signature publicKey =
     (let transactionHash =
            createTransactionHash P (sourceChain transaction) (targetChain transaction)
              (sender transaction) (receiver transaction)
              (amountToString P (amount transaction)) (nonce transaction)
      in verifyHash P (sourceChain transaction) transactionHash signature publicKey)"

text \<open>
  The canonical hash of a transaction, in the words of the specification: the hash over
  \<open>(sourceChain, targetChain, sender, receiver, amount-as-string, nonce)\<close>, in this order.
\<close>

definition canonicalHash :: "primitives \<Rightarrow> BridgeTransaction \<Rightarrow> string" where
  "canonicalHash P tx =
     sha256hex P (chainTypeString (sourceChain tx) @ chainTypeString (targetChain tx)
                  @ sender tx @ receiver tx @ amountToString P (amount tx)
                  @ numberToString P (nonce tx))"

section \<open>The bridge and its event bus (src/bridge.ts, src/events.ts)\<close>

text \<open>
  The state of a \<open>CarbonCreditBridge\<close>: its transaction store, and whether some listener
  is subscribed to the \<open>error\<close> channel of the shared emitter (the constructor subscribes
  the bridge to \<open>lock\<close>, \<open>burn\<close>, \<open>verification\<close> and \<open>timeout\<close> only). \<open>calls\<close> is a
  history of the chain-adapter operations that were invoked; the code does not read it.
\<close>

datatype adapter_call =
    LockCall string string bignumber
  | ReleaseCall string string bignumber
  | MintCall string string string
  | BurnCall string string string

record bridge =
  transactions :: "string \<rightharpoonup> BridgeTransaction"
  errorListener :: bool
  calls :: "adapter_call list"

text \<open>
  \<open>emitBridgeEvent(ERROR, ...)\<close> is \<open>emit("error", event)\<close> on a Node \<open>EventEmitter\<close>,
  which throws when no listener is registered for \<open>error\<close>. The events \<open>mint\<close>,
  \<open>release\<close> and \<open>error\<close> reach no listener of the bridge, so emitting them changes
  nothing in the bridge state.
\<close>

definition emitError :: "bridge \<Rightarrow> string + unit" where
  "emitError b = (if errorListener b then Inr () else Inl ''Unhandled error.'')"

definition failureResult :: "string \<Rightarrow> string \<Rightarrow> BridgeResult" where
  "failureResult bridgeId' message =
     \<lparr>success = False, transactionId = [], bridgeId = bridgeId', br_status = FAILED,
      br_error = Some (if message = [] then ''Unknown error'' else message)\<rparr>"

section \<open>Algorand handler: release (src/chains/algorand/index.ts)\<close>

text \<open>
  The whole body is a \<open>try\<close>; every exception ends in the failure result. The two
  \<open>release\<close> events it emits reach no listener of the bridge.
\<close>

definition releaseCarbonCredits ::
  "env \<Rightarrow> BridgeConfig \<Rightarrow> string \<Rightarrow> string \<Rightarrow> bignumber \<Rightarrow> bridge \<Rightarrow> BridgeResult \<times> bridge" where
  "releaseCarbonCredits E config bridgeId' receiver' amount' b =
     (let b0 = b\<lparr>calls := calls b @ [ReleaseCall bridgeId' receiver' amount']\<rparr>
      in case bridgeAccount config of
           None \<Rightarrow> (failureResult bridgeId' ''Bridge account not configured'', b0)
         | Some account \<Rightarrow>
             (case getTransactionParams E of
                Inl message \<Rightarrow> (failureResult bridgeId' message, b0)
              | Inr firstRound \<Rightarrow>
                  (case buildReleaseCall E bridgeId' receiver' amount' of
                     Inl message \<Rightarrow> (failureResult bridgeId' message, b0)
                   | Inr blob \<Rightarrow>
                       (case sendRawTransaction E blob of
                          Inl message \<Rightarrow> (failureResult bridgeId' message, b0)
                        | Inr txId \<Rightarrow>
                            (\<lparr>success = True, transactionId = txId, bridgeId = bridgeId',
                              br_status = RELEASED, br_error = None\<rparr>, b0)))))"

section \<open>Ethereum handler: mint\<close>

text \<open>
  The Ethereum handler is written against the ethers 6 API (\<open>ethers.JsonRpcProvider\<close>,
  \<open>ethers.parseUnits\<close>, \<open>ethers.isAddress\<close>), in which \<open>ethers.BigNumber\<close> does not
  exist. In \<open>mintWrappedCarbonCredits\<close>, after the wallet check and the address check,
  the transaction object is built with \<open>new ethers.BigNumber(amount)\<close>, which throws a
  \<open>TypeError\<close>; the \<open>try\<close> around the body turns every exception into the failure
  result. So the call never reaches the contract and emits no \<open>mint\<close> event.
\<close>

definition mintWrappedCarbonCredits ::
  "primitives \<Rightarrow> env \<Rightarrow> string \<Rightarrow> string \<Rightarrow> string \<Rightarrow> string \<Rightarrow> bridge
     \<Rightarrow> BridgeResult \<times> bridge" where
  "mintWrappedCarbonCredits P E bridgeId' receiver' amount' sourceTransactionId' b =
     (let b0 = b\<lparr>calls := calls b @ [MintCall bridgeId' receiver' amount']\<rparr>
      in if \<not> walletConfigured E then
           (failureResult bridgeId' ''Ethereum wallet not configured'', b0)
         else if \<not> isAddress P receiver' then
           (failureResult bridgeId' ''Invalid Ethereum receiver address'', b0)
         else (failureResult bridgeId' ''ethers.BigNumber is not a constructor'', b0))"

section \<open>Event handlers of the bridge (src/bridge.ts)\<close>

text \<open>
  Each listener is an \<open>async\<close> function; the model runs it to completion at the point
  where the event is emitted. \<open>spread tx etx\<close> is \<open>{...tx, ...etx}\<close>: the fields of the
  event's transaction win, an optional field it lacks is kept.
\<close>

definition spread :: "BridgeTransaction \<Rightarrow> BridgeTransaction \<Rightarrow> BridgeTransaction" where
  "spread tx etx =
     etx\<lparr>sourceTransactionId :=
            (case sourceTransactionId etx of None \<Rightarrow> sourceTransactionId tx | Some i \<Rightarrow> Some i),
         targetTransactionId :=
            (case targetTransactionId etx of None \<Rightarrow> targetTransactionId tx | Some i \<Rightarrow> Some i)\<rparr>"

definition handleVerificationEvent :: "BridgeEvent \<Rightarrow> bridge \<Rightarrow> bridge" where
  "handleVerificationEvent event b =
     (case transactions b (bt_id (ev_transaction event)) of
        None \<Rightarrow> b
      | Some tx \<Rightarrow>
          b\<lparr>transactions := (transactions b)(bt_id tx \<mapsto> spread tx (ev_transaction event))\<rparr>)"

text \<open>
  \<open>releaseCarbonCredits\<close> never throws, so the \<open>catch\<close> of the timeout handler is not
  reached: the status is always set to \<open>FAILED\<close> and stored.
\<close>

definition handleTimeoutEvent ::
  "primitives \<Rightarrow> env \<Rightarrow> BridgeConfig \<Rightarrow> BridgeEvent \<Rightarrow> bridge \<Rightarrow> bridge" where
  "handleTimeoutEvent P E config event b =
     (let tx = ev_transaction event;
          b1 = (if sourceChain tx = ALGORAND \<and> status tx = LOCKED
                then snd (releaseCarbonCredits E config (bt_id tx) (sender tx)
                            (toNumber P (amount tx)) b)
                else b)
      in b1\<lparr>transactions := (transactions b1)(bt_id tx \<mapsto> tx\<lparr>status := FAILED\<rparr>)\<rparr>)"

text \<open>
  \<open>mintOnTargetChain\<close> and \<open>releaseOnAlgorand\<close>: the option is the message of the
  \<open>Error\<close> they throw when the adapter reports failure.
\<close>

definition mintOnTargetChain ::
  "primitives \<Rightarrow> env \<Rightarrow> BridgeTransaction \<Rightarrow> bridge \<Rightarrow> string option \<times> bridge" where
  "mintOnTargetChain P E transaction b =
     (let (result, b1) =
            mintWrappedCarbonCredits P E (bt_id transaction) (receiver transaction)
              (amountToString P (amount transaction))
              (case sourceTransactionId transaction of None \<Rightarrow> [] | Some i \<Rightarrow> i) b
      in if success result then
           (None, b1\<lparr>transactions := (transactions b1)(bt_id transaction \<mapsto>
                       transaction\<lparr>status := MINTED,
                                   targetTransactionId := Some (transactionId result)\<rparr>)\<rparr>)
         else (br_error result, b1))"

definition releaseOnAlgorand ::
  "primitives \<Rightarrow> env \<Rightarrow> BridgeConfig \<Rightarrow> BridgeTransaction \<Rightarrow> bridge
     \<Rightarrow> string option \<times> bridge" where
  "releaseOnAlgorand P E config transaction b =
     (let (result, b1) =
            releaseCarbonCredits E config (bt_id transaction) (receiver transaction)
              (toNumber P (amount transaction)) b
      in if success result then
           (None, b1\<lparr>transactions := (transactions b1)(bt_id transaction \<mapsto>
                       transaction\<lparr>status := RELEASED,
                                   targetTransactionId := Some (transactionId result)\<rparr>)\<rparr>)
         else (br_error result, b1))"

text \<open>
  The events \<open>verifyTransaction\<close> emits (\<open>timeout\<close> or \<open>verification\<close>) go to the
  bridge's own listeners while the lock or burn handler waits for the result.
\<close>

definition deliverNested ::
  "primitives \<Rightarrow> env \<Rightarrow> BridgeConfig \<Rightarrow> BridgeEvent \<Rightarrow> bridge \<Rightarrow> bridge" where
  "deliverNested P E config event b =
     (case ev_type event of
        TIMEOUT \<Rightarrow> handleTimeoutEvent P E config event b
      | VERIFICATION \<Rightarrow> handleVerificationEvent event b
      | _ \<Rightarrow> b)"

text \<open>
  The lock and burn handlers. When verification fails, or the mint or release throws,
  the handler emits an \<open>error\<close> event; that emission (and whether it throws, which makes
  the handler's promise reject) changes nothing in the bridge state.
\<close>

definition handleLockEvent ::
  "primitives \<Rightarrow> env \<Rightarrow> BridgeConfig \<Rightarrow> BridgeEvent \<Rightarrow> bridge \<Rightarrow> bridge" where
  "handleLockEvent P E config event b =
     (let tx = ev_transaction event;
          b1 = b\<lparr>transactions := (transactions b)(bt_id tx \<mapsto> tx)\<rparr>;
          (verification, emitted) = verifyTransaction P E tx config;
          b2 = foldl (\<lambda>s e. deliverNested P E config e s) b1 emitted
      in if isValid verification then snd (mintOnTargetChain P E tx b2) else b2)"

definition handleBurnEvent ::
  "primitives \<Rightarrow> env \<Rightarrow> BridgeConfig \<Rightarrow> BridgeEvent \<Rightarrow> bridge \<Rightarrow> bridge" where
  "handleBurnEvent P E config event b =
     (let tx = ev_transaction event;
          b1 = b\<lparr>transactions := (transactions b)(bt_id tx \<mapsto> tx)\<rparr>;
          (verification, emitted) = verifyTransaction P E tx config;
          b2 = foldl (\<lambda>s e. deliverNested P E config e s) b1 emitted
      in if isValid verification then snd (releaseOnAlgorand P E config tx b2) else b2)"

text \<open>
  The four subscriptions of \<open>setupEventListeners\<close>; an event of another type reaches no
  listener of the bridge. \<open>run\<close> handles a sequence of events, each in the world of its
  moment.
\<close>

definition handleBridgeEvent ::
  "primitives \<Rightarrow> env \<Rightarrow> BridgeConfig \<Rightarrow> BridgeEvent \<Rightarrow> bridge \<Rightarrow> bridge" where
  "handleBridgeEvent P E config event b =
     (case ev_type event of
        LOCK \<Rightarrow> handleLockEvent P E config event b
      | BURN \<Rightarrow> handleBurnEvent P E config event b
      | VERIFICATION \<Rightarrow> handleVerificationEvent event b
      | TIMEOUT \<Rightarrow> handleTimeoutEvent P E config event b
      | _ \<Rightarrow> b)"

definition run ::
  "primitives \<Rightarrow> BridgeConfig \<Rightarrow> (env \<times> BridgeEvent) list \<Rightarrow> bridge \<Rightarrow> bridge" where
  "run P config steps b = foldl (\<lambda>s (E, event). handleBridgeEvent P E config event s) b steps"

definition newBridge :: bridge where
  "newBridge = \<lparr>transactions = Map.empty, errorListener = False, calls = []\<rparr>"

section \<open>Algorand handler: lock (src/chains/algorand/index.ts)\<close>

text \<open>
  One \<open>try\<close> around the body. The \<open>lock\<close> event it emits reaches the bridge's lock
  handler.
\<close>

definition lockCarbonCredits ::
  "primitives \<Rightarrow> env \<Rightarrow> BridgeConfig \<Rightarrow> string \<Rightarrow> string \<Rightarrow> bignumber \<Rightarrow> bridge
     \<Rightarrow> BridgeResult \<times> bridge" where
  "lockCarbonCredits P E config sender' receiver' amount' b =
     (let b0 = b\<lparr>calls := calls b @ [LockCall sender' receiver' amount']\<rparr>
      in case bridgeAccount config of
           None \<Rightarrow> (failureResult [] ''Bridge account not configured'', b0)
         | Some account \<Rightarrow>
             (let bridgeId' = generateBridgeId E
              in case getTransactionParams E of
                   Inl message \<Rightarrow> (failureResult [] message, b0)
                 | Inr firstRound \<Rightarrow>
                     (case buildLockGroup E sender' receiver' amount' of
                        Inl message \<Rightarrow> (failureResult [] message, b0)
                      | Inr txnGroup \<Rightarrow>
                          (let bridgeTransaction =
                                 \<lparr>bt_id = bridgeId', sourceChain = ALGORAND,
                                  targetChain = targetChainType config,
                                  sourceAssetId = carbonAssetId config,
                                  targetAssetId = tokenContractAddress config,
                                  amount = amount', sender = sender', receiver = receiver',
                                  status = PENDING, sourceTransactionId = None,
                                  targetTransactionId = None,
                                  timestamp = Num (dateNow E), nonce = firstRound\<rparr>;
                               b1 = handleLockEvent P E config
                                      \<lparr>ev_type = LOCK, ev_transaction = bridgeTransaction,
                                       ev_timestamp = dateNow E,
                                       details = SubmissionDetails txnGroup\<rparr> b0
                           in (\<lparr>success = True, transactionId = [], bridgeId = bridgeId',
                                br_status = PENDING, br_error = None\<rparr>, b1)))))"

section \<open>Ethereum handler: burn and status\<close>

text \<open>
  \<open>burnWrappedCarbonCredits\<close> generates the bridge id and then builds the transaction
  object with \<open>ethers.BigNumber.from(...)\<close>, a property read on \<open>undefined\<close> that throws
  before the \<open>burn\<close> event is emitted; the \<open>try\<close> turns it into the failure result (with
  an empty bridge id). Burn events therefore reach the bridge only from
  \<open>processBurnEvent\<close>, which emits them with status \<open>BURNED\<close>.
\<close>

definition burnWrappedCarbonCredits ::
  "primitives \<Rightarrow> env \<Rightarrow> BridgeConfig \<Rightarrow> string \<Rightarrow> string \<Rightarrow> string \<Rightarrow> bridge
     \<Rightarrow> BridgeResult \<times> bridge" where
  "burnWrappedCarbonCredits P E config sender' algorandReceiver amount' b =
     (let b0 = b\<lparr>calls := calls b @ [BurnCall sender' algorandReceiver amount']\<rparr>
      in (failureResult [] ''Cannot read properties of undefined'', b0))"

text \<open>
  \<open>getBridgeStatus\<close> returns a \<open>uint8\<close>, which ethers 6 delivers as a \<open>bigint\<close>. The
  \<open>switch\<close> compares it with the numbers 0, 1 and 2 by strict equality, which a bigint
  never satisfies, so every answer of the contract falls to the \<open>default\<close> branch.
\<close>

datatype jsvalue = JSNumber int | JSBigInt int

fun strictEquals :: "jsvalue \<Rightarrow> jsvalue \<Rightarrow> bool" where
  "strictEquals (JSNumber m) (JSNumber n) = (m = n)"
| "strictEquals (JSBigInt m) (JSBigInt n) = (m = n)"
| "strictEquals _ _ = False"

definition ethereum_getBridgeTransactionStatus :: "env \<Rightarrow> string \<Rightarrow> BridgeStatus" where
  "ethereum_getBridgeTransactionStatus E bridgeId' =
     (case getBridgeStatus E bridgeId' of
        Inl message \<Rightarrow> FAILED
      | Inr code \<Rightarrow>
          (let status' = JSBigInt code
           in if strictEquals status' (JSNumber 0) then PENDING
              else if strictEquals status' (JSNumber 1) then MINTED
              else if strictEquals status' (JSNumber 2) then BURNED
              else PENDING))"

section \<open>Algorand handler: status\<close>

text \<open>\<open>str_includes s sub\<close> is \<open>s.includes(sub)\<close>.\<close>

fun str_includes :: "string \<Rightarrow> string \<Rightarrow> bool" where
  "str_includes [] sub = (sub = [])"
| "str_includes (c # cs) sub = (take (length sub) (c # cs) = sub \<or> str_includes cs sub)"

fun scanLogs :: "primitives \<Rightarrow> string \<Rightarrow> string list \<Rightarrow> BridgeStatus" where
  "scanLogs P bridgeId' [] = PENDING"
| "scanLogs P bridgeId' (txLog # rest) =
     (if str_includes txLog bridgeId' then
        (let logData = base64Decode P txLog
         in if str_includes logData ''lock_complete'' then LOCKED
            else if str_includes logData ''release_complete'' then RELEASED
            else scanLogs P bridgeId' rest)
      else scanLogs P bridgeId' rest)"

definition algorand_getBridgeTransactionStatus ::
  "primitives \<Rightarrow> env \<Rightarrow> string \<Rightarrow> BridgeStatus" where
  "algorand_getBridgeTransactionStatus P E bridgeId' =
     (case searchForApplications E of
        Inl message \<Rightarrow> FAILED
      | Inr logs \<Rightarrow> scanLogs P bridgeId' (concat logs))"

section \<open>Public operations of the bridge (src/bridge.ts)\<close>

text \<open>
  Neither adapter lookup throws, so the \<open>catch\<close> of \<open>getTransactionStatus\<close> is not
  reached.
\<close>

definition getTransactionStatus :: "primitives \<Rightarrow> env \<Rightarrow> bridge \<Rightarrow> string \<Rightarrow> BridgeStatus" where
  "getTransactionStatus P E b bridgeId' =
     (case transactions b bridgeId' of
        Some tx \<Rightarrow> status tx
      | None \<Rightarrow>
          (let algorandStatus = algorand_getBridgeTransactionStatus P E bridgeId'
           in if algorandStatus \<noteq> FAILED then algorandStatus
              else ethereum_getBridgeTransactionStatus E bridgeId'))"

definition formatAddress :: "primitives \<Rightarrow> string \<Rightarrow> ChainType \<Rightarrow> string + string" where
  "formatAddress P address chainType =
     (case chainType of
        ALGORAND \<Rightarrow>
          if isValidAddress P address then Inr address
          else Inl ''Address formatting error for algorand: Invalid Algorand address format''
      | ETHEREUM \<Rightarrow>
          if isAddress P address then Inr (getAddress P address)
          else Inl ''Address formatting error for ethereum: Invalid Ethereum address format'')"

record CarbonCreditMetadata =
  projectId :: string
  vintage :: jsnumber
  standard :: string
  creditType :: string
  serialNumber :: string
  issuanceDate :: jsnumber
  retirementStatus :: bool

definition validateCarbonMetadata :: "CarbonCreditMetadata \<Rightarrow> string option" where
  "validateCarbonMetadata metadata =
     (if projectId metadata = [] then Some ''Project ID is required''
      else if vintage metadata = NaN \<or> vintage metadata = Num 0
        then Some ''Valid vintage year is required''
      else if standard metadata = [] then Some ''Carbon standard is required''
      else if serialNumber metadata = [] then Some ''Serial number is required''
      else None)"

text \<open>
  The \<open>amount\<close> argument, \<open>number | string | BigNumber\<close> or absent. A number is given by
  its value. \<open>falsy\<close> is the test \<open>!amount\<close>: zero and \<open>NaN\<close> among numbers, the empty
  string, and \<open>undefined\<close>; an object never.
\<close>

datatype amount_arg = NumberArg bignumber | StringArg string | BigNumberArg bignumber | Missing

fun falsy :: "amount_arg \<Rightarrow> bool" where
  "falsy (NumberArg v) = (v = BNaN \<or> v = BFin 0 \<or> v = BNegZero)"
| "falsy (StringArg str) = (str = [])"
| "falsy (BigNumberArg v) = False"
| "falsy Missing = True"

fun newBigNumber :: "primitives \<Rightarrow> amount_arg \<Rightarrow> bignumber" where
  "newBigNumber P (NumberArg v) = v"
| "newBigNumber P (StringArg str) = parseBigNumber P str"
| "newBigNumber P (BigNumberArg v) = v"
| "newBigNumber P Missing = BNaN"

text \<open>
  The \<open>try\<close> block of \<open>bridgeToTargetChain\<close>: the message of the exception, or the
  result of the lock with the state it leaves.
\<close>

definition bridgeToTargetChain_try ::
  "primitives \<Rightarrow> env \<Rightarrow> BridgeConfig \<Rightarrow> string \<Rightarrow> string \<Rightarrow> amount_arg
     \<Rightarrow> CarbonCreditMetadata option \<Rightarrow> bridge \<Rightarrow> string + BridgeResult \<times> bridge" where
  "bridgeToTargetChain_try P E config sender' receiver' amount' metadata b =
     (if sender' = [] then Inl ''Sender address is required''
      else if receiver' = [] then Inl ''Receiver address is required''
      else if falsy amount' then Inl ''Amount is required''
      else let bnAmount = newBigNumber P amount'
        in if bn_isNaN bnAmount \<or> \<not> bn_isPositive bnAmount
           then Inl ''Amount must be a positive number''
           else (case formatAddress P sender' ALGORAND of
                   Inl message \<Rightarrow> Inl message
                 | Inr formattedSender \<Rightarrow>
                     (case formatAddress P receiver' (targetChainType config) of
                        Inl message \<Rightarrow> Inl message
                      | Inr formattedReceiver \<Rightarrow>
                          (case (case metadata of
                                   None \<Rightarrow> None
                                 | Some m \<Rightarrow> validateCarbonMetadata m) of
                             Some metadataError \<Rightarrow> Inl (''Invalid metadata: '' @ metadataError)
                           | None \<Rightarrow>
                               Inr (lockCarbonCredits P E config formattedSender
                                      formattedReceiver (toNumber P bnAmount) b)))))"

text \<open>
  The \<open>catch\<close> block builds the error result and then emits an \<open>error\<close> event; when
  that emission throws, the exception leaves the function (the promise rejects): the
  left injection.
\<close>

definition bridgeToTargetChain ::
  "primitives \<Rightarrow> env \<Rightarrow> BridgeConfig \<Rightarrow> string \<Rightarrow> string \<Rightarrow> amount_arg
     \<Rightarrow> CarbonCreditMetadata option \<Rightarrow> bridge \<Rightarrow> (string + BridgeResult) \<times> bridge" where
  "bridgeToTargetChain P E config sender' receiver' amount' metadata b =
     (case bridgeToTargetChain_try P E config sender' receiver' amount' metadata b of
        Inr (result, b1) \<Rightarrow> (Inr result, b1)
      | Inl message \<Rightarrow>
          (let errorResult = failureResult [] message
           in case emitError b of
                Inl unhandled \<Rightarrow> (Inl unhandled, b)
              | Inr u \<Rightarrow> (Inr errorResult, b)))"

definition bridgeToAlgorand ::
  "primitives \<Rightarrow> env \<Rightarrow> BridgeConfig \<Rightarrow> string \<Rightarrow> string \<Rightarrow> amount_arg \<Rightarrow> bridge
     \<Rightarrow> BridgeResult \<times> bridge" where
  "bridgeToAlgorand P E config sender' receiver' amount' b =
     (case formatAddress P sender' (targetChainType config) of
        Inl message \<Rightarrow> (failureResult [] message, b)
      | Inr formattedSender \<Rightarrow>
          (case formatAddress P receiver' ALGORAND of
             Inl message \<Rightarrow> (failureResult [] message, b)
           | Inr formattedReceiver \<Rightarrow>
               burnWrappedCarbonCredits P E config formattedSender formattedReceiver
                 (amountToString P (newBigNumber P amount')) b))"

section \<open>A concrete world for the examples\<close>

text \<open>
  Stand-ins for the library functions, one state of the outside world, a configuration
  and a transaction, on which the theorems below are evaluated.
\<close>

definition example_primitives :: primitives where
  "example_primitives =
     \<lparr>sha256hex = (\<lambda>s. ''sha256:'' @ s),
      numberToString = (\<lambda>n. case n of NaN \<Rightarrow> ''NaN'' | Num i \<Rightarrow> (if i = 7 then ''7'' else ''0'')),
      amountToString = (\<lambda>a. if a = BFin 100 then ''100'' else ''0''),
      parseBigNumber = (\<lambda>s. if s = ''0'' then BFin 0 else BNaN),
      toNumber = (\<lambda>v. v),
      base64Decode = (\<lambda>s. s), base64Encode = (\<lambda>s. s), hexDecode = (\<lambda>s. s),
      mnemonicToSecretKey = Inr,
      signBytes = (\<lambda>m k. Inr (k @ m)),
      walletSignMessage = (\<lambda>k m. Inr (k @ m)),
      decodeAddress = Inr,
      verifyBytes = (\<lambda>m s k. Inr (s = k @ m)),
      hashMessage = (\<lambda>s. s),
      recoverAddress = (\<lambda>h s. Inr s),
      toLowerCase = (\<lambda>s. s),
      isValidAddress = (\<lambda>a. a \<noteq> []),
      isAddress = (\<lambda>a. a \<noteq> []),
      getAddress = (\<lambda>s. s)\<rparr>"

definition example_env :: env where
  "example_env =
     \<lparr>dateNow = 1700000000000,
      verifyAlgorandTransaction = (\<lambda>t. True),
      verifyTargetChainTransaction = (\<lambda>t. False),
      fetchSign = (\<lambda>url h. Response True 200 (Parsed (JObject [(''signature'', JString (''sig:'' @ url))]))),
      generateBridgeId = ''bridge-1'',
      getTransactionParams = Inr (Num 7),
      buildLockGroup = (\<lambda>s r a. Inr ''group''),
      buildReleaseCall = (\<lambda>i r a. Inr ''blob''),
      sendRawTransaction = (\<lambda>b. Inr ''algo-tx''),
      walletConfigured = True,
      searchForApplications = Inr [],
      getBridgeStatus = (\<lambda>i. Inr 1)\<rparr>"

definition example_config :: BridgeConfig where
  "example_config =
     \<lparr>verifiers = [''v1'', ''v2'', ''v3''], minVerifierSignatures = 2,
      bridgeAccount = Some ''BRIDGE'', targetChainType = ETHEREUM,
      carbonAssetId = ''31566704'', tokenContractAddress = ''0xToken''\<rparr>"

definition example_transaction :: BridgeTransaction where
  "example_transaction =
     \<lparr>bt_id = ''bridge-1'', sourceChain = ALGORAND, targetChain = ETHEREUM,
      sourceAssetId = ''31566704'', targetAssetId = ''0xToken'', amount = BFin 100,
      sender = ''ALICE'', receiver = ''0xB0b'', status = PENDING,
      sourceTransactionId = Some ''ALGOTX'', targetTransactionId = None,
      timestamp = Num 1699999999000, nonce = Num 7\<rparr>"

definition example_lock_event :: BridgeEvent where
  "example_lock_event =
     \<lparr>ev_type = LOCK, ev_transaction = example_transaction, ev_timestamp = 1700000000000,
      details = SubmissionDetails ''group''\<rparr>"

definition example_timeout_event :: BridgeEvent where
  "example_timeout_event =
     \<lparr>ev_type = TIMEOUT, ev_transaction = example_transaction, ev_timestamp = 1700000000000,
      details = NoDetails\<rparr>"

definition example_verification_event :: BridgeEvent where
  "example_verification_event =
     \<lparr>ev_type = VERIFICATION, ev_transaction = example_transaction,
      ev_timestamp = 1700000000000, details = VerificationDetails False []\<rparr>"



text \<open>A bridge in an application that has subscribed a listener to \<open>error\<close>.\<close>

definition example_bridge :: bridge where
  "example_bridge = newBridge\<lparr>errorListener := True\<rparr>"

text \<open>A configuration with no verifiers and a threshold of 0, which \<open>createBridgeConfig\<close> accepts.\<close>

definition open_config :: BridgeConfig where
  "open_config = example_config\<lparr>verifiers := [], minVerifierSignatures := 0\<rparr>"

section \<open>Notions used in the statements\<close>


definition unfinished :: "BridgeEvent \<Rightarrow> bool" where
  "unfinished ev =
     (if ev_type ev = LOCK \<or> ev_type ev = BURN \<or> ev_type ev = VERIFICATION
      then status (ev_transaction ev) \<noteq> MINTED \<and> status (ev_transaction ev) \<noteq> RELEASED
      else True)"

definition failed_result :: "BridgeResult \<Rightarrow> bool" where
  "failed_result r =
     (\<not> success r \<and> br_status r = FAILED \<and> br_error r \<noteq> None \<and> br_error r \<noteq> Some [])"

section \<open>Properties of the timeout check\<close>

text \<open>
  C5, as stated, at a timestamp of 0: the timeout is positive and \<open>now - timestamp\<close>
  exceeds it, yet the call does not return true; the guard on the timestamp throws.
\<close>

theorem isTransactionTimedOut_zero_timestamp_throws:
  "isTransactionTimedOut 1000000 (Num 0) (Num 1) = Inl ''Invalid transaction timestamp''
   \<and> (1000000::int) - 0 > 1"
  by (simp add: isTransactionTimedOut_def)

text \<open>
  C5, amended: for every positive timestamp and positive timeout the call returns, and it
  returns true exactly when \<open>now - timestamp > timeoutMs\<close> and the timestamp is not more
  than 300000 ms ahead of \<open>now\<close>.
\<close>

theorem isTransactionTimedOut_positive:
  assumes "0 < ts" and "0 < tm"
  shows "isTransactionTimedOut now (Num ts) (Num tm)
           = Inr (\<not> ts > now + 300000 \<and> now - ts > tm)"
  using assms by (simp add: isTransactionTimedOut_def)

theorem isTransactionTimedOut_positive_witness:
  "isTransactionTimedOut 5000000 (Num 1000000) (Num 3600000) = Inr True
   \<and> isTransactionTimedOut 5000000 (Num 6000000) (Num 3600000) = Inr False"
  using isTransactionTimedOut_positive [of 1000000 3600000 5000000]
        isTransactionTimedOut_positive [of 6000000 3600000 5000000]
  by simp

section \<open>Properties of the amount conversion\<close>

lemma MAX_EXP_ge_20: "20 \<le> MAX_EXP"
  by (simp add: MAX_EXP_def)

lemma pow10_ge_1: "(1::rat) \<le> 10 ^ n"
  by (rule one_le_power) simp

lemma pow10_mono: "m \<le> n \<Longrightarrow> (10::rat) ^ m \<le> 10 ^ n"
  by (rule power_increasing) simp_all

lemma inv_pow10_mono: "m \<le> n \<Longrightarrow> 1 / (10::rat) ^ n \<le> 1 / 10 ^ m"
  by (simp add: frac_le pow10_mono)

lemma bn_pow10_overflow: "MAX_EXP < n \<Longrightarrow> bn_pow10 n = BInf False"
  by (simp add: bn_pow10_def)

lemma bn_pow10_finite: "n \<le> MAX_EXP \<Longrightarrow> bn_pow10 n = BFin (10 ^ n)"
  by (simp add: bn_pow10_def)

lemma bn_range_zero: "bn_range 0 = BFin 0"
proof -
  have a: "\<bar>0::rat\<bar> < 1 / 10 ^ MAX_EXP" by simp
  have b: "\<not> (10::rat) ^ (MAX_EXP + 1) \<le> \<bar>0\<bar>" by (simp add: not_le)
  show ?thesis
    unfolding bn_range_def signed_zero_def using a b
    by (simp only: if_True if_False less_irrefl)
qed

lemma bn_range_keeps:
  assumes "1 / 10 ^ MAX_EXP \<le> \<bar>r\<bar>" and "\<bar>r\<bar> < 10 ^ (MAX_EXP + 1)"
  shows "bn_range r = BFin r"
proof -
  have a: "\<not> \<bar>r\<bar> < 1 / 10 ^ MAX_EXP" using assms(1) by (simp only: not_less)
  have b: "\<not> 10 ^ (MAX_EXP + 1) \<le> \<bar>r\<bar>" using assms(2) by (simp only: not_le)
  show ?thesis unfolding bn_range_def using a b by (simp only: if_False)
qed

text \<open>A non-zero multiple of the 20th decimal place is at least that place.\<close>

lemma multiple_lower:
  fixes m :: int
  assumes "m \<noteq> 0"
  shows "1 / 10 ^ MAX_EXP \<le> \<bar>(of_int m :: rat) / 10 ^ 20\<bar>"
proof -
  have "1 \<le> \<bar>m\<bar>" using assms by simp
  then have "(1::rat) \<le> of_int \<bar>m\<bar>" by (simp only: of_int_1_le_iff)
  then have "(1::rat) \<le> \<bar>of_int m\<bar>" by (simp only: of_int_abs)
  then have "(1::rat) / 10 ^ 20 \<le> \<bar>of_int m\<bar> / 10 ^ 20" by (simp add: divide_right_mono)
  moreover have "1 / (10::rat) ^ MAX_EXP \<le> 1 / 10 ^ 20"
    by (rule inv_pow10_mono) (rule MAX_EXP_ge_20)
  ultimately have "1 / (10::rat) ^ MAX_EXP \<le> \<bar>of_int m\<bar> / 10 ^ 20" by (rule order_trans [rotated])
  then show ?thesis by (simp only: abs_divide) simp
qed

lemma half_floor_err:
  fixes x :: rat
  shows "\<bar>of_int \<lfloor>x + 1 / 2\<rfloor> - x\<bar> \<le> 1 / 2"
proof -
  have "of_int \<lfloor>x + 1 / 2\<rfloor> \<le> x + 1 / 2" by (rule of_int_floor_le)
  moreover have "x + 1 / 2 < of_int \<lfloor>x + 1 / 2\<rfloor> + 1" by linarith
  ultimately show ?thesis by linarith
qed

lemma round_dp_err: "\<bar>bn_value (round_dp q) - q\<bar> * (2 * 10 ^ 20) \<le> 1"
proof -
  define x where "x = \<bar>q\<bar> * 10 ^ 20"
  define m where "m = \<lfloor>x + 1 / 2\<rfloor>"
  have e: "\<bar>of_int m - x\<bar> \<le> 1 / 2" unfolding m_def by (rule half_floor_err)
  have v: "bn_value (round_dp q) = (if q < 0 then - (of_int m / 10 ^ 20) else of_int m / 10 ^ 20)"
    by (simp add: round_dp_def Let_def m_def x_def)
  have "\<bar>bn_value (round_dp q) - q\<bar> = \<bar>of_int m - x\<bar> / 10 ^ 20"
  proof (cases "q < 0")
    case True
    then have "x = - q * 10 ^ 20" by (simp add: x_def)
    then have "q = - (x / 10 ^ 20)" by simp
    then have "bn_value (round_dp q) - q = - ((of_int m - x) / 10 ^ 20)"
      using True v by (simp add: diff_divide_distrib)
    then show ?thesis by (simp only: abs_minus abs_divide) simp
  next
    case False
    then have "x = q * 10 ^ 20" by (simp add: x_def)
    then have "q = x / 10 ^ 20" by simp
    then have "bn_value (round_dp q) - q = (of_int m - x) / 10 ^ 20"
      using False v by (simp add: diff_divide_distrib)
    then show ?thesis by (simp only: abs_divide) simp
  qed
  then show ?thesis using e by simp
qed

lemma round_dp_exact:
  assumes "q * 10 ^ 20 \<in> \<int>"
  shows "round_dp q = BFin q"
proof -
  from assms obtain n :: int where n: "q * 10 ^ 20 = of_int n" by (auto elim: Ints_cases)
  then have q: "q = of_int n / 10 ^ 20" by simp
  have "\<bar>q\<bar> * 10 ^ 20 = \<bar>q * 10 ^ 20\<bar>" by (simp add: abs_mult)
  also have "\<dots> = of_int \<bar>n\<bar>" using n by simp
  finally have a: "\<bar>q\<bar> * 10 ^ 20 = of_int \<bar>n\<bar>" .
  have fl: "\<lfloor>\<bar>q\<bar> * 10 ^ 20 + 1 / 2\<rfloor> = \<bar>n\<bar>"
  proof -
    have "\<lfloor>rat_of_int \<bar>n\<bar> + 1 / 2\<rfloor> = \<bar>n\<bar>"
      by (rule floor_unique) simp_all
    then show ?thesis by (simp only: a)
  qed
  show ?thesis
  proof (cases "q < 0")
    case True
    then have "n < 0" using q by (simp add: divide_less_0_iff)
    then show ?thesis using True fl q by (simp add: round_dp_def)
  next
    case False
    then have "0 \<le> n" using q by (simp add: zero_le_divide_iff not_less)
    then show ?thesis using False fl q by (simp add: round_dp_def)
  qed
qed

lemma round_dp_shape:
  "round_dp q = BNegZero \<or> (\<exists>m::int. round_dp q = BFin (of_int m / 10 ^ 20))"
proof -
  let ?m = "\<lfloor>\<bar>q\<bar> * 10 ^ 20 + 1 / 2\<rfloor>"
  have "- (rat_of_int ?m / 10 ^ 20) = of_int (- ?m) / 10 ^ 20" by simp
  then show ?thesis unfolding round_dp_def Let_def by (metis (full_types))
qed

lemma bn_range_multiple:
  fixes m :: int
  assumes "\<bar>(of_int m :: rat) / 10 ^ 20\<bar> < 10 ^ (MAX_EXP + 1)"
  shows "bn_range (of_int m / 10 ^ 20) = BFin (of_int m / 10 ^ 20)"
proof (cases "m = 0")
  case True
  then show ?thesis by (simp add: bn_range_zero)
next
  case False
  then show ?thesis using assms by (intro bn_range_keeps multiple_lower)
qed

lemma bn_round_rounded:
  assumes "\<bar>q\<bar> + 1 \<le> 10 ^ (MAX_EXP + 1)"
  shows "bn_round q = round_dp q"
proof -
  have e: "\<bar>bn_value (round_dp q) - q\<bar> * (2 * 10 ^ 20) \<le> 1" by (rule round_dp_err)
  from round_dp_shape [of q] show ?thesis
  proof
    assume "round_dp q = BNegZero"
    then show ?thesis by (simp add: bn_round_def)
  next
    assume "\<exists>m::int. round_dp q = BFin (of_int m / 10 ^ 20)"
    then obtain m :: int where m: "round_dp q = BFin (of_int m / 10 ^ 20)" by blast
    let ?v = "(of_int m :: rat) / 10 ^ 20"
    have "\<bar>?v - q\<bar> * (2 * 10 ^ 20) \<le> 1" using e m by simp
    then have "\<bar>?v - q\<bar> \<le> 1 / (2 * 10 ^ 20)" by (simp add: pos_le_divide_eq)
    also have "\<dots> < 1" by simp
    finally have "\<bar>?v - q\<bar> < 1" .
    then have "\<bar>?v\<bar> < \<bar>q\<bar> + 1" by linarith
    then have "\<bar>?v\<bar> < 10 ^ (MAX_EXP + 1)" using assms by (rule less_le_trans)
    then have "bn_range ?v = BFin ?v" by (rule bn_range_multiple)
    then show ?thesis using m by (simp add: bn_round_def)
  qed
qed

lemma two_pow10_le: "2 * (10::rat) ^ n \<le> 10 ^ (n + 1)"
  by simp

lemma abs_le_scaled: "\<bar>r::rat\<bar> \<le> \<bar>r\<bar> * 10 ^ k"
proof -
  have "\<bar>r\<bar> * 1 \<le> \<bar>r\<bar> * 10 ^ k" by (rule mult_left_mono) (simp_all add: pow10_ge_1)
  then show ?thesis by simp
qed

lemma bn_times_pow10:
  assumes "bn_inRange r" and "\<bar>r\<bar> * 10 ^ k < 10 ^ (MAX_EXP + 1)"
  shows "bn_times (BFin r) (BFin (10 ^ k)) = BFin (r * 10 ^ k)"
proof (cases "r = 0")
  case True
  then show ?thesis by (simp add: bn_times_def signed_zero_def)
next
  case False
  then have lo: "1 / 10 ^ MAX_EXP \<le> \<bar>r\<bar>" using assms(1) by (simp add: bn_inRange_def)
  have "\<bar>r * 10 ^ k\<bar> = \<bar>r\<bar> * 10 ^ k" by (simp add: abs_mult)
  then have "bn_range (r * 10 ^ k) = BFin (r * 10 ^ k)"
    using lo assms(2) abs_le_scaled [of r k] by (intro bn_range_keeps) linarith+
  then show ?thesis using False by (simp add: bn_times_def)
qed

lemma bn_times_negzero: "bn_times BNegZero (BFin (10 ^ k)) = BNegZero"
  by (simp add: bn_times_def signed_zero_def)

lemma bn_div_negzero: "bn_div BNegZero (BFin (10 ^ k)) = BNegZero"
  by (simp add: bn_div_def signed_zero_def)

lemma round_dp_zero: "round_dp 0 = BFin 0"
  by (rule round_dp_exact) simp

lemma bn_div_pow10:
  assumes "\<bar>x / 10 ^ k\<bar> + 1 \<le> 10 ^ (MAX_EXP + 1)"
  shows "bn_div (BFin x) (BFin (10 ^ k)) = round_dp (x / 10 ^ k)"
proof (cases "x = 0")
  case True
  then show ?thesis by (simp add: bn_div_def signed_zero_def round_dp_zero)
next
  case False
  then have "bn_div (BFin x) (BFin (10 ^ k)) = bn_round (x / 10 ^ k)" by (simp add: bn_div_def)
  then show ?thesis using bn_round_rounded [OF assms] by simp
qed

lemma convertAmount_same:
  "0 \<le> f \<Longrightarrow> bn_isFinite a \<Longrightarrow> convertAmount a f f = Inr a"
  by (cases a) (simp_all add: convertAmount_def)

lemma convertAmount_up:
  assumes "0 \<le> f" "f < t" "nat (t - f) \<le> MAX_EXP" "bn_isFinite a"
  shows "convertAmount a f t = Inr (bn_times a (BFin (10 ^ nat (t - f))))"
proof -
  have "nat \<bar>t - f\<bar> = nat (t - f)" using assms(2) by simp
  then show ?thesis using assms
    by (cases a) (simp_all add: convertAmount_def Let_def bn_pow10_finite)
qed

lemma convertAmount_down:
  assumes "0 \<le> t" "t < f" "nat (f - t) \<le> MAX_EXP" "bn_isFinite a"
  shows "convertAmount a f t = Inr (bn_div a (BFin (10 ^ nat (f - t))))"
proof -
  have "nat \<bar>t - f\<bar> = nat (f - t)" using assms(2) by simp
  then show ?thesis using assms
    by (cases a) (simp_all add: convertAmount_def Let_def bn_pow10_finite)
qed


lemma round_trip_up:
  assumes "0 \<le> f" "f < t" "nat \<bar>t - f\<bar> \<le> MAX_EXP" "bn_inRange r"
    and "\<bar>r\<bar> * 10 ^ nat \<bar>t - f\<bar> < 10 ^ MAX_EXP"
  shows "\<exists>m u. convertAmount (BFin r) f t = Inr m \<and> convertAmount m t f = Inr u
           \<and> \<bar>bn_value u - r\<bar> * (2 * 10 ^ 20) \<le> 10 ^ nat (f - t)
           \<and> (r / 10 ^ nat (f - t) \<in> \<int> \<longrightarrow> u = BFin r)"
proof -
  let ?k = "nat (t - f)"
  have k: "nat \<bar>t - f\<bar> = ?k" using assms(2) by simp
  have kM: "?k \<le> MAX_EXP" using assms(3) k by simp
  have small: "\<bar>r\<bar> * 10 ^ ?k < 10 ^ MAX_EXP" using assms(5) k by simp
  have M1: "(10::rat) ^ MAX_EXP \<le> 10 ^ (MAX_EXP + 1)" by (rule pow10_mono) simp
  have hi: "\<bar>r\<bar> * 10 ^ ?k < 10 ^ (MAX_EXP + 1)" using small M1 by (rule less_le_trans)
  have fwd: "convertAmount (BFin r) f t = Inr (BFin (r * 10 ^ ?k))"
    using assms(1,2) kM by (simp add: convertAmount_up bn_times_pow10 [OF assms(4) hi])
  have rM: "\<bar>r\<bar> < 10 ^ MAX_EXP" using abs_le_scaled [of r ?k] small by (rule le_less_trans)
  have "\<bar>r\<bar> + 1 \<le> 2 * 10 ^ MAX_EXP" using rM pow10_ge_1 [of MAX_EXP] by linarith
  then have r1: "\<bar>r\<bar> + 1 \<le> 10 ^ (MAX_EXP + 1)"
    using two_pow10_le [of MAX_EXP] by (rule order_trans)
  have q: "r * 10 ^ ?k / 10 ^ ?k = r" by simp
  have bk: "convertAmount (BFin (r * 10 ^ ?k)) t f = Inr (round_dp r)"
  proof -
    have "\<bar>r * 10 ^ ?k / 10 ^ ?k\<bar> + 1 \<le> 10 ^ (MAX_EXP + 1)" using r1 by (simp only: q)
    then have "bn_div (BFin (r * 10 ^ ?k)) (BFin (10 ^ ?k)) = round_dp r"
      using bn_div_pow10 [of "r * 10 ^ ?k" ?k] by (simp only: q)
    moreover have "0 \<le> f" "f < t" "nat (t - f) \<le> MAX_EXP" using assms(1,2) kM by simp_all
    ultimately show ?thesis using convertAmount_down [of f t "BFin (r * 10 ^ ?k)"] assms(1)
      by simp
  qed
  have z: "nat (f - t) = 0" using assms(2) by simp
  have ex: "r \<in> \<int> \<Longrightarrow> round_dp r = BFin r"
    by (rule round_dp_exact) (intro Ints_mult Ints_power Ints_numeral)
  show ?thesis
    using fwd bk round_dp_err [of r] ex by (simp add: z)
qed

lemma round_trip_down:
  assumes "0 \<le> t" "t < f" "nat \<bar>t - f\<bar> \<le> MAX_EXP" "bn_inRange r"
    and "\<bar>r\<bar> * 10 ^ nat \<bar>t - f\<bar> < 10 ^ MAX_EXP"
  shows "\<exists>m u. convertAmount (BFin r) f t = Inr m \<and> convertAmount m t f = Inr u
           \<and> \<bar>bn_value u - r\<bar> * (2 * 10 ^ 20) \<le> 10 ^ nat (f - t)
           \<and> (r / 10 ^ nat (f - t) \<in> \<int> \<longrightarrow> u = BFin r)"
proof -
  let ?k = "nat (f - t)"
  let ?q = "r / 10 ^ ?k"
  have k: "nat \<bar>t - f\<bar> = ?k" using assms(2) by simp
  have kM: "?k \<le> MAX_EXP" using assms(3) k by simp
  have small: "\<bar>r\<bar> * 10 ^ ?k < 10 ^ MAX_EXP" using assms(5) k by simp
  have rM: "\<bar>r\<bar> < 10 ^ MAX_EXP" using abs_le_scaled [of r ?k] small by (rule le_less_trans)
  have f0: "0 \<le> f" using assms(1,2) by simp
  have "\<bar>?q\<bar> * 10 ^ ?k = \<bar>r\<bar>" by (simp add: abs_divide)
  then have qr: "\<bar>?q\<bar> \<le> \<bar>r\<bar>" using abs_le_scaled [of ?q ?k] by simp
  have "\<bar>?q\<bar> + 1 \<le> 2 * 10 ^ MAX_EXP" using qr rM pow10_ge_1 [of MAX_EXP] by linarith
  then have q1: "\<bar>?q\<bar> + 1 \<le> 10 ^ (MAX_EXP + 1)"
    using two_pow10_le [of MAX_EXP] by (rule order_trans)
  have fwd: "convertAmount (BFin r) f t = Inr (round_dp ?q)"
    using assms(1,2) kM by (simp add: convertAmount_down bn_div_pow10 [OF q1])
  have err: "\<bar>bn_value (round_dp ?q) - ?q\<bar> * (2 * 10 ^ 20) \<le> 1" by (rule round_dp_err)
  have scale: "\<bar>v * 10 ^ ?k - r\<bar> = \<bar>v - ?q\<bar> * 10 ^ ?k" for v :: rat
  proof -
    have "v * 10 ^ ?k - r = (v - ?q) * 10 ^ ?k" by (simp add: left_diff_distrib)
    then show ?thesis by (simp only: abs_mult) simp
  qed
  have exact: "?q \<in> \<int> \<Longrightarrow> round_dp ?q = BFin ?q"
    by (rule round_dp_exact) (intro Ints_mult Ints_power Ints_numeral)
  from round_dp_shape [of ?q] show ?thesis
  proof
    assume nz: "round_dp ?q = BNegZero"
    have bk: "convertAmount BNegZero t f = Inr BNegZero"
      using assms(1,2) kM by (simp add: convertAmount_up bn_times_negzero)
    have "\<bar>0 - ?q\<bar> * (2 * 10 ^ 20) \<le> 1" using err nz by simp
    then have "\<bar>0 - ?q\<bar> * (2 * 10 ^ 20) * 10 ^ ?k \<le> 1 * 10 ^ ?k"
      by (rule mult_right_mono) simp
    then have bound: "\<bar>0 * 10 ^ ?k - r\<bar> * (2 * 10 ^ 20) \<le> 10 ^ ?k"
      by (simp only: scale) (simp add: mult_ac)
    have "?q \<notin> \<int>" using exact nz by auto
    then show ?thesis using fwd nz bk bound by simp
  next
    assume "\<exists>m::int. round_dp ?q = BFin (of_int m / 10 ^ 20)"
    then obtain m :: int where m0: "round_dp ?q = BFin (of_int m / 10 ^ 20)" by blast
    define v :: rat where "v = of_int m / 10 ^ 20"
    have m: "round_dp ?q = BFin v" using m0 by (simp only: v_def)
    have ev: "\<bar>v - ?q\<bar> * (2 * 10 ^ 20) \<le> 1" using err m by simp
    then have "\<bar>v - ?q\<bar> * (2 * 10 ^ 20) * 10 ^ ?k \<le> 1 * 10 ^ ?k"
      by (rule mult_right_mono) simp
    then have bound: "\<bar>v * 10 ^ ?k - r\<bar> * (2 * 10 ^ 20) \<le> 10 ^ ?k"
      by (simp add: scale mult_ac)
    have "\<bar>v * 10 ^ ?k - r\<bar> * 1 \<le> \<bar>v * 10 ^ ?k - r\<bar> * (2 * 10 ^ 20)"
      by (rule mult_left_mono) simp_all
    then have "\<bar>v * 10 ^ ?k - r\<bar> * 1 \<le> 10 ^ ?k" using bound by (rule order_trans)
    then have d: "\<bar>v * 10 ^ ?k - r\<bar> \<le> 10 ^ ?k" by simp
    have "(10::rat) ^ ?k \<le> 10 ^ MAX_EXP" using kM by (rule pow10_mono)
    then have "\<bar>v * 10 ^ ?k\<bar> < 2 * 10 ^ MAX_EXP" using d rM by linarith
    then have "\<bar>v * 10 ^ ?k\<bar> < 10 ^ (MAX_EXP + 1)"
      using two_pow10_le [of MAX_EXP] by (rule less_le_trans)
    then have hi: "\<bar>v\<bar> * 10 ^ ?k < 10 ^ (MAX_EXP + 1)" by (simp add: abs_mult)
    have vhi: "\<bar>v\<bar> < 10 ^ (MAX_EXP + 1)" using abs_le_scaled [of v ?k] hi by (rule le_less_trans)
    have inr: "bn_inRange v"
    proof (cases "m = 0")
      case True
      then show ?thesis by (simp add: bn_inRange_def v_def)
    next
      case False
      then have "1 / 10 ^ MAX_EXP \<le> \<bar>v\<bar>" unfolding v_def by (rule multiple_lower)
      then show ?thesis using vhi by (simp add: bn_inRange_def)
    qed
    have bk: "convertAmount (BFin v) t f = Inr (BFin (v * 10 ^ ?k))"
      using assms(1,2) kM by (simp add: convertAmount_up bn_times_pow10 [OF inr hi])
    have "?q \<in> \<int> \<Longrightarrow> v * 10 ^ ?k = r" using exact m by simp
    then show ?thesis using fwd m bk bound by simp
  qed
qed

lemma round_trip_finite:
  assumes "0 \<le> f" "0 \<le> t" "nat \<bar>t - f\<bar> \<le> MAX_EXP" "bn_inRange r"
    and "\<bar>r\<bar> * 10 ^ nat \<bar>t - f\<bar> < 10 ^ MAX_EXP"
  shows "\<exists>m u. convertAmount (BFin r) f t = Inr m \<and> convertAmount m t f = Inr u
           \<and> \<bar>bn_value u - r\<bar> * (2 * 10 ^ 20) \<le> 10 ^ nat (f - t)
           \<and> (r / 10 ^ nat (f - t) \<in> \<int> \<longrightarrow> u = BFin r)"
proof -
  consider "f = t" | "f < t" | "t < f" by linarith
  then show ?thesis
  proof cases
    case 1
    then show ?thesis using assms(1) by (simp add: convertAmount_same)
  next
    case 2
    then show ?thesis using assms by (simp only: round_trip_up)
  next
    case 3
    then show ?thesis using assms by (simp only: round_trip_down)
  qed
qed

lemma round_trip_negzero:
  assumes "0 \<le> f" "0 \<le> t" "nat \<bar>t - f\<bar> \<le> MAX_EXP"
  shows "convertAmount BNegZero f t = Inr BNegZero"
proof -
  consider "f = t" | "f < t" | "t < f" by linarith
  then show ?thesis
  proof cases
    case 1
    then show ?thesis using assms(1) by (simp add: convertAmount_same)
  next
    case 2
    then have "nat (t - f) \<le> MAX_EXP" using assms(3) by simp
    then show ?thesis using 2 assms(1) by (simp add: convertAmount_up bn_times_negzero)
  next
    case 3
    then have "nat (f - t) \<le> MAX_EXP" using assms(3) by simp
    then show ?thesis using 3 assms(2) by (simp add: convertAmount_down bn_div_negzero)
  qed
qed

text \<open>
  C6, as stated, at the amount 1 and the decimal counts 0 and 10000001: the amount is
  finite and the counts are non-negative integers, yet the factor \<open>10 ^ 10000001\<close>
  overflows, the conversion returns \<open>Infinity\<close>, and converting that back throws.
\<close>

theorem convertAmount_overflow_breaks_round_trip:
  "bn_isFinite (BFin 1)
   \<and> convertAmount (BFin 1) 0 10000001 = Inr (BInf False)
   \<and> convertAmount (BInf False) 10000001 0 = Inl ''Invalid amount value''"
proof -
  have "MAX_EXP < 10000001" by (simp add: MAX_EXP_def)
  then have p: "bn_pow10 10000001 = BInf False" by (rule bn_pow10_overflow)
  have t: "bn_times (BFin 1) (BInf False) = BInf False" by (simp add: bn_times_def)
  have a: "convertAmount (BFin 1) 0 10000001 = Inr (BInf False)"
    by (simp add: convertAmount_def Let_def p t)
  have b: "convertAmount (BInf False) 10000001 0 = Inl ''Invalid amount value''"
    by (simp add: convertAmount_def)
  show ?thesis using a b by simp
qed

text \<open>
  C6, amended: let the decimal counts be non-negative and at most \<open>MAX_EXP\<close> apart, and
  let the finite amount, scaled by \<open>10 ^ |toDecimals - fromDecimals|\<close>, stay below
  \<open>10 ^ MAX_EXP\<close>. Then converting there and back returns; the result differs from the
  amount by at most half a unit of the 20th decimal place, scaled by
  \<open>10 ^ (fromDecimals - toDecimals)\<close> when the target side has fewer decimals, which is
  far below one smallest unit of the lower-precision side; and it is the amount itself
  whenever the amount is a whole number of smallest units of the lower-precision side.
  A negative decimal count throws, and so does an amount that is NaN or infinite.
\<close>

theorem convertAmount_round_trip_in_range:
  "(0 \<le> f \<and> 0 \<le> t \<and> nat \<bar>t - f\<bar> \<le> MAX_EXP \<and> bn_isFinite a \<and> bn_inRange (bn_value a)
      \<and> \<bar>bn_value a\<bar> * 10 ^ nat \<bar>t - f\<bar> < 10 ^ MAX_EXP \<longrightarrow>
      (\<exists>m u. convertAmount a f t = Inr m \<and> convertAmount m t f = Inr u
         \<and> \<bar>bn_value u - bn_value a\<bar> * (2 * 10 ^ 20) \<le> 10 ^ nat (f - t)
         \<and> (bn_value a / 10 ^ nat (f - t) \<in> \<int> \<longrightarrow> u = a)))
   \<and> (f < 0 \<or> t < 0 \<longrightarrow> convertAmount a f t = Inl ''Decimal values must be non-negative'')
   \<and> (0 \<le> f \<and> 0 \<le> t \<and> \<not> bn_isFinite a \<longrightarrow> convertAmount a f t = Inl ''Invalid amount value'')"
proof (intro conjI impI)
  assume h: "0 \<le> f \<and> 0 \<le> t \<and> nat \<bar>t - f\<bar> \<le> MAX_EXP \<and> bn_isFinite a \<and> bn_inRange (bn_value a)
      \<and> \<bar>bn_value a\<bar> * 10 ^ nat \<bar>t - f\<bar> < 10 ^ MAX_EXP"
  have sym: "nat \<bar>f - t\<bar> = nat \<bar>t - f\<bar>" by simp
  show "\<exists>m u. convertAmount a f t = Inr m \<and> convertAmount m t f = Inr u
         \<and> \<bar>bn_value u - bn_value a\<bar> * (2 * 10 ^ 20) \<le> 10 ^ nat (f - t)
         \<and> (bn_value a / 10 ^ nat (f - t) \<in> \<int> \<longrightarrow> u = a)"
  proof (cases a)
    case (BFin r)
    then show ?thesis using h round_trip_finite [of f t r] by simp
  next
    case BNegZero
    have "convertAmount BNegZero f t = Inr BNegZero"
      using h by (intro round_trip_negzero) simp_all
    moreover have "convertAmount BNegZero t f = Inr BNegZero"
      using h by (intro round_trip_negzero) (simp_all add: sym)
    ultimately show ?thesis using BNegZero by simp
  next
    case BNaN
    then show ?thesis using h by simp
  next
    case (BInf s)
    then show ?thesis using h by simp
  qed
next
  assume "f < 0 \<or> t < 0"
  then show "convertAmount a f t = Inl ''Decimal values must be non-negative''"
    by (simp add: convertAmount_def)
next
  assume "0 \<le> f \<and> 0 \<le> t \<and> \<not> bn_isFinite a"
  then show "convertAmount a f t = Inl ''Invalid amount value''"
    by (simp add: convertAmount_def)
qed

theorem convertAmount_round_trip_in_range_witness:
  "(\<exists>m. convertAmount (BFin 15) 6 18 = Inr m \<and> convertAmount m 18 6 = Inr (BFin 15))
   \<and> convertAmount (BFin 15) (- 1) 18 = Inl ''Decimal values must be non-negative''
   \<and> convertAmount BNaN 6 18 = Inl ''Invalid amount value''"
proof -
  have M: "(10::rat) ^ 20 \<le> 10 ^ MAX_EXP" by (rule pow10_mono) (rule MAX_EXP_ge_20)
  have k: "nat \<bar>18 - 6 :: int\<bar> \<le> MAX_EXP" by (simp add: MAX_EXP_def)
  have lo: "1 / 10 ^ MAX_EXP \<le> \<bar>15::rat\<bar>"
  proof -
    have "1 / (10::rat) ^ MAX_EXP \<le> 1 / 10 ^ 0" by (rule inv_pow10_mono) simp
    then have "1 / (10::rat) ^ MAX_EXP \<le> 1" by simp
    also have "(1::rat) \<le> \<bar>15\<bar>" by simp
    finally show ?thesis .
  qed
  have "\<bar>15::rat\<bar> < 10 ^ 20" by simp
  then have hi0: "\<bar>15::rat\<bar> < 10 ^ MAX_EXP" using M by (rule less_le_trans)
  have "(10::rat) ^ MAX_EXP \<le> 10 ^ (MAX_EXP + 1)" by (rule pow10_mono) simp
  then have hi: "\<bar>15::rat\<bar> < 10 ^ (MAX_EXP + 1)" using hi0 by (rule less_le_trans [rotated])
  have r: "bn_inRange (bn_value (BFin 15))" using lo hi by (simp add: bn_inRange_def)
  have "\<bar>15::rat\<bar> * 10 ^ nat \<bar>18 - 6 :: int\<bar> < 10 ^ 20" by simp
  then have "\<bar>15::rat\<bar> * 10 ^ nat \<bar>18 - 6 :: int\<bar> < 10 ^ MAX_EXP"
    using M by (rule less_le_trans)
  then have s: "\<bar>bn_value (BFin 15)\<bar> * 10 ^ nat \<bar>18 - 6 :: int\<bar> < 10 ^ MAX_EXP"
    by (simp only: bn_value.simps)
  have i: "bn_value (BFin 15) / 10 ^ nat (6 - 18) \<in> \<int>" by simp
  have "\<exists>m u. convertAmount (BFin 15) 6 18 = Inr m \<and> convertAmount m 18 6 = Inr u
          \<and> (bn_value (BFin 15) / 10 ^ nat (6 - 18) \<in> \<int> \<longrightarrow> u = BFin 15)"
    using convertAmount_round_trip_in_range [of 6 18 "BFin 15"] k r s by auto
  then have a: "\<exists>m. convertAmount (BFin 15) 6 18 = Inr m \<and> convertAmount m 18 6 = Inr (BFin 15)"
    using i by blast
  have b: "convertAmount (BFin 15) (- 1) 18 = Inl ''Decimal values must be non-negative''"
    using convertAmount_round_trip_in_range [of "- 1" 18 "BFin 15"] by simp
  have c: "convertAmount BNaN 6 18 = Inl ''Invalid amount value''"
    using convertAmount_round_trip_in_range [of 6 18 BNaN] by simp
  show ?thesis using a b c by blast
qed

section \<open>Properties of the verifier responses and of the quorum\<close>

lemma requestVerifierSignature_None: "requestVerifierSignature E url h = None"
  by (simp add: requestVerifierSignature_def split: fetch_outcome.splits body.splits)

text \<open>
  C2, at a well-formed response: the verifier answers with HTTP 200 and the body
  \<open>{"signature": "sig:v1"}\<close>, and \<open>requestVerifierSignature\<close> returns \<open>null\<close>, where C2
  says it returns \<open>sig:v1\<close>. The first of the two identical format tests returns
  \<open>null\<close>, so no response is ever accepted (\<open>requestVerifierSignature_None\<close>).
\<close>

theorem requestVerifierSignature_drops_well_formed:
  "fetchSign example_env ''v1'' ''hash''
     = Response True 200 (Parsed (JObject [(''signature'', JString ''sig:v1'')]))
   \<and> hasStringSignature (JObject [(''signature'', JString ''sig:v1'')])
   \<and> requestVerifierSignature example_env ''v1'' ''hash'' = None"
  by (simp add: requestVerifierSignature_def example_env_def)

lemma collectVerifierSignatures_Nil: "collectVerifierSignatures P E tx config = []"
  by (simp add: collectVerifierSignatures_def requestVerifierSignature_None Let_def split_def)

lemma verifyTransaction_quorum:
  assumes "isTransactionTimedOut (dateNow E) (timestamp tx) (Num 3600000) = Inr False"
    and "(if sourceChain tx = ALGORAND then verifyAlgorandTransaction E tx
          else verifyTargetChainTransaction E tx)"
  shows "isValid (fst (verifyTransaction P E tx config))
           = (minVerifierSignatures config \<le> int (length (collectVerifierSignatures P E tx config)))
         \<and> signatures (fst (verifyTransaction P E tx config)) = collectVerifierSignatures P E tx config"
  using assms by (simp add: verifyTransaction_def Let_def)

text \<open>
  C1, at three well-formed responses and a threshold of 2: the transaction is not timed
  out and passes the proof check, every verifier returns a signature, and
  \<open>verifyTransaction\<close> reports \<open>isValid = false\<close> with no signatures, where C1 says
  \<open>isValid = true\<close> with the three signatures. The comparison with the threshold itself
  is as C1 says (\<open>verifyTransaction_quorum\<close>); the list it counts is always empty.
\<close>

theorem verifyTransaction_ignores_well_formed_signatures:
  "map (\<lambda>(url, h). fetchSign example_env url h)
       (signatureRequests example_primitives example_transaction example_config)
     = [Response True 200 (Parsed (JObject [(''signature'', JString ''sig:v1'')])),
        Response True 200 (Parsed (JObject [(''signature'', JString ''sig:v2'')])),
        Response True 200 (Parsed (JObject [(''signature'', JString ''sig:v3'')]))]
   \<and> minVerifierSignatures example_config = 2
   \<and> isTransactionTimedOut (dateNow example_env) (timestamp example_transaction) (Num 3600000) = Inr False
   \<and> verifyAlgorandTransaction example_env example_transaction
   \<and> isValid (fst (verifyTransaction example_primitives example_env example_transaction example_config)) = False
   \<and> signatures (fst (verifyTransaction example_primitives example_env example_transaction example_config)) = []"
  by (simp add: verifyTransaction_def collectVerifierSignatures_Nil isTransactionTimedOut_def
      signatureRequests_def Let_def example_env_def example_config_def example_transaction_def)

section \<open>Properties of the transaction hash\<close>

text \<open>
  C8: \<open>createTransactionHash\<close> applied to the six fields of a transaction is the
  canonical hash (SHA-256 over the six strings in the fixed order); \<open>signTransaction\<close>
  signs it, \<open>verifySignature\<close> checks it, and every request to a verifier carries it. So
  two transactions that agree on the six fields get the same hash, the same signature,
  the same verdict and the same requests.
\<close>

theorem transaction_hash_shared:
  "createTransactionHash P (sourceChain tx) (targetChain tx) (sender tx) (receiver tx)
       (amountToString P (amount tx)) (nonce tx) = canonicalHash P tx
   \<and> signTransaction P tx privateKey = signHash P (sourceChain tx) (canonicalHash P tx) privateKey
   \<and> verifySignature P tx signature publicKey
       = verifyHash P (sourceChain tx) (canonicalHash P tx) signature publicKey
   \<and> signatureRequests P tx config = map (\<lambda>verifierUrl. (verifierUrl, canonicalHash P tx)) (verifiers config)
   \<and> (sourceChain tx' = sourceChain tx \<and> targetChain tx' = targetChain tx \<and> sender tx' = sender tx
        \<and> receiver tx' = receiver tx \<and> amountToString P (amount tx') = amountToString P (amount tx)
        \<and> nonce tx' = nonce tx
      \<longrightarrow> canonicalHash P tx' = canonicalHash P tx
          \<and> signTransaction P tx' privateKey = signTransaction P tx privateKey
          \<and> verifySignature P tx' signature publicKey = verifySignature P tx signature publicKey
          \<and> signatureRequests P tx' config = signatureRequests P tx config)"
  by (simp add: createTransactionHash_def canonicalHash_def signTransaction_def
      verifySignature_def signatureRequests_def)

theorem transaction_hash_shared_witness:
  "canonicalHash example_primitives example_transaction = ''sha256:algorandethereumALICE0xB0b1007''
   \<and> signTransaction example_primitives (example_transaction\<lparr>bt_id := ''other'', status := LOCKED\<rparr>) ''key''
       = signTransaction example_primitives example_transaction ''key''
   \<and> signTransaction example_primitives example_transaction ''key''
       = Inr ''keysha256:algorandethereumALICE0xB0b1007''
   \<and> verifySignature example_primitives example_transaction ''keysha256:algorandethereumALICE0xB0b1007'' ''key''
   \<and> signatureRequests example_primitives example_transaction example_config
       = [(''v1'', ''sha256:algorandethereumALICE0xB0b1007''),
          (''v2'', ''sha256:algorandethereumALICE0xB0b1007''),
          (''v3'', ''sha256:algorandethereumALICE0xB0b1007'')]"
proof -
  have h: "canonicalHash example_primitives example_transaction = ''sha256:algorandethereumALICE0xB0b1007''"
    by (simp add: canonicalHash_def example_primitives_def example_transaction_def)
  have s: "signHash example_primitives ALGORAND ''sha256:algorandethereumALICE0xB0b1007'' ''key''
             = Inr ''keysha256:algorandethereumALICE0xB0b1007''"
    by (simp add: signHash_def example_primitives_def)
  have v: "verifyHash example_primitives ALGORAND ''sha256:algorandethereumALICE0xB0b1007''
             ''keysha256:algorandethereumALICE0xB0b1007'' ''key''"
    by (simp add: verifyHash_def example_primitives_def)
  have c: "sourceChain example_transaction = ALGORAND" "verifiers example_config = [''v1'', ''v2'', ''v3'']"
    by (simp_all add: example_transaction_def example_config_def)
  show ?thesis
    using transaction_hash_shared [of example_primitives example_transaction "''key''"
        "''keysha256:algorandethereumALICE0xB0b1007''" "''key''" example_config
        "example_transaction\<lparr>bt_id := ''other'', status := LOCKED\<rparr>"]
      h s v c
    by simp
qed

section \<open>Properties of the status lookup\<close>

text \<open>
  C9: \<open>getTransactionStatus\<close> returns the stored status when the id is in the store;
  otherwise it returns the answer of the Algorand handler unless that answer is
  \<open>FAILED\<close>, and then the answer of the target-chain handler (which is asked only in
  that case).
\<close>

theorem getTransactionStatus_local_then_chains:
  "(transactions b i = Some tx \<longrightarrow> getTransactionStatus P E b i = status tx)
   \<and> (transactions b i = None \<and> algorand_getBridgeTransactionStatus P E i \<noteq> FAILED
        \<longrightarrow> getTransactionStatus P E b i = algorand_getBridgeTransactionStatus P E i)
   \<and> (transactions b i = None \<and> algorand_getBridgeTransactionStatus P E i = FAILED
        \<longrightarrow> getTransactionStatus P E b i = ethereum_getBridgeTransactionStatus E i)"
  by (simp add: getTransactionStatus_def Let_def)

theorem getTransactionStatus_witness:
  "getTransactionStatus example_primitives example_env
      (newBridge\<lparr>transactions := [''bridge-1'' \<mapsto> example_transaction]\<rparr>) ''bridge-1'' = PENDING
   \<and> getTransactionStatus example_primitives
        (example_env\<lparr>searchForApplications := Inr [[''bridge-2:lock_complete'']]\<rparr>) newBridge ''bridge-2'' = LOCKED
   \<and> getTransactionStatus example_primitives
        (example_env\<lparr>searchForApplications := Inl ''indexer down''\<rparr>) newBridge ''bridge-2'' = PENDING
   \<and> getTransactionStatus example_primitives
        (example_env\<lparr>searchForApplications := Inl ''indexer down'',
                      getBridgeStatus := (\<lambda>i. Inl ''call reverted'')\<rparr>) newBridge ''bridge-2'' = FAILED"
proof -
  let ?down = "example_env\<lparr>searchForApplications := Inl ''indexer down''\<rparr>"
  let ?both = "example_env\<lparr>searchForApplications := Inl ''indexer down'',
                      getBridgeStatus := (\<lambda>i. Inl ''call reverted'')\<rparr>"
  have a: "algorand_getBridgeTransactionStatus example_primitives
             (example_env\<lparr>searchForApplications := Inr [[''bridge-2:lock_complete'']]\<rparr>) ''bridge-2'' = LOCKED"
    by (simp add: algorand_getBridgeTransactionStatus_def example_primitives_def)
  have f: "algorand_getBridgeTransactionStatus example_primitives ?down ''bridge-2'' = FAILED"
          "algorand_getBridgeTransactionStatus example_primitives ?both ''bridge-2'' = FAILED"
    by (simp_all add: algorand_getBridgeTransactionStatus_def)
  have e: "ethereum_getBridgeTransactionStatus ?down ''bridge-2'' = PENDING"
          "ethereum_getBridgeTransactionStatus ?both ''bridge-2'' = FAILED"
    by (simp_all add: ethereum_getBridgeTransactionStatus_def example_env_def)
  have s: "status example_transaction = PENDING" by (simp add: example_transaction_def)
  show ?thesis
    using getTransactionStatus_local_then_chains [of "newBridge\<lparr>transactions := [''bridge-1'' \<mapsto> example_transaction]\<rparr>"
        "''bridge-1''" example_transaction example_primitives example_env]
      getTransactionStatus_local_then_chains [of newBridge "''bridge-2''" example_transaction example_primitives
        "example_env\<lparr>searchForApplications := Inr [[''bridge-2:lock_complete'']]\<rparr>"]
      getTransactionStatus_local_then_chains [of newBridge "''bridge-2''" example_transaction example_primitives ?down]
      getTransactionStatus_local_then_chains [of newBridge "''bridge-2''" example_transaction example_primitives ?both]
      a f e s
    by (simp add: newBridge_def)
qed

section \<open>Effect of the handlers on the store\<close>

lemma releaseCarbonCredits_store:
  "transactions (snd (releaseCarbonCredits E config i r a b)) = transactions b"
  by (simp add: releaseCarbonCredits_def Let_def split: option.splits sum.splits)

lemma mintWrappedCarbonCredits_store:
  "transactions (snd (mintWrappedCarbonCredits P E i r a s b)) = transactions b"
  by (simp add: mintWrappedCarbonCredits_def Let_def)

lemma mintWrappedCarbonCredits_fails:
  "\<not> success (fst (mintWrappedCarbonCredits P E i r a s b))"
  by (simp add: mintWrappedCarbonCredits_def Let_def failureResult_def)

lemma handleTimeoutEvent_store:
  "transactions (handleTimeoutEvent P E config ev b)
     = (transactions b)(bt_id (ev_transaction ev) \<mapsto> (ev_transaction ev)\<lparr>status := FAILED\<rparr>)"
  by (simp add: handleTimeoutEvent_def Let_def releaseCarbonCredits_store)

lemma handleVerificationEvent_store:
  "transactions (handleVerificationEvent ev b)
     = (case transactions b (bt_id (ev_transaction ev)) of
          None \<Rightarrow> transactions b
        | Some tx \<Rightarrow> (transactions b)(bt_id tx \<mapsto> spread tx (ev_transaction ev)))"
  by (simp add: handleVerificationEvent_def split: option.splits)

lemma spread_fields [simp]:
  "status (spread tx etx) = status etx" "bt_id (spread tx etx) = bt_id etx"
  by (simp_all add: spread_def)

lemma spread_same [simp]: "spread tx tx = tx"
  by (simp add: spread_def split: option.splits)

lemma mintOnTargetChain_store:
  "transactions (snd (mintOnTargetChain P E tx b)) = transactions b"
proof -
  obtain result b1 where m: "mintWrappedCarbonCredits P E (bt_id tx) (receiver tx)
      (amountToString P (amount tx)) (case sourceTransactionId tx of None \<Rightarrow> [] | Some i \<Rightarrow> i) b
      = (result, b1)" by (cases "mintWrappedCarbonCredits P E (bt_id tx) (receiver tx)
      (amountToString P (amount tx)) (case sourceTransactionId tx of None \<Rightarrow> [] | Some i \<Rightarrow> i) b")
  have "\<not> success result" using mintWrappedCarbonCredits_fails [of P E "bt_id tx" "receiver tx"
      "amountToString P (amount tx)" "case sourceTransactionId tx of None \<Rightarrow> [] | Some i \<Rightarrow> i" b] m
    by simp
  moreover have "transactions b1 = transactions b"
    using mintWrappedCarbonCredits_store [of P E "bt_id tx" "receiver tx"
      "amountToString P (amount tx)" "case sourceTransactionId tx of None \<Rightarrow> [] | Some i \<Rightarrow> i" b] m
    by simp
  ultimately show ?thesis by (simp add: mintOnTargetChain_def m)
qed

lemma releaseOnAlgorand_store:
  "transactions (snd (releaseOnAlgorand P E config tx b)) = transactions b
   \<or> (\<exists>h. transactions (snd (releaseOnAlgorand P E config tx b))
            = (transactions b)(bt_id tx \<mapsto> tx\<lparr>status := RELEASED, targetTransactionId := Some h\<rparr>))"
  by (auto simp add: releaseOnAlgorand_def releaseCarbonCredits_def Let_def
      split: sum.splits option.splits)

lemma verifyTransaction_emitted:
  "snd (verifyTransaction P E tx config) = []
   \<or> (\<not> isValid (fst (verifyTransaction P E tx config))
       \<and> snd (verifyTransaction P E tx config)
           = [\<lparr>ev_type = TIMEOUT, ev_transaction = tx, ev_timestamp = dateNow E, details = NoDetails\<rparr>])
   \<or> (\<exists>d. snd (verifyTransaction P E tx config)
           = [\<lparr>ev_type = VERIFICATION, ev_transaction = tx, ev_timestamp = dateNow E, details = d\<rparr>])"
  by (simp add: verifyTransaction_def Let_def split: sum.splits bool.splits)

lemma verifyTransaction_nested_store:
  assumes "transactions b1 = (transactions b)(bt_id tx \<mapsto> tx)"
  shows "transactions (foldl (\<lambda>s e. deliverNested P E config e s) b1
                         (snd (verifyTransaction P E tx config)))
           = (transactions b)(bt_id tx \<mapsto> tx)
         \<or> (\<not> isValid (fst (verifyTransaction P E tx config))
            \<and> transactions (foldl (\<lambda>s e. deliverNested P E config e s) b1
                         (snd (verifyTransaction P E tx config)))
                = (transactions b)(bt_id tx \<mapsto> tx\<lparr>status := FAILED\<rparr>))"
  using verifyTransaction_emitted [of P E tx config] assms
  by (auto simp add: deliverNested_def handleTimeoutEvent_store handleVerificationEvent_store)

lemma handleLockEvent_store:
  "transactions (handleLockEvent P E config ev b)
     = (transactions b)(bt_id (ev_transaction ev) \<mapsto> ev_transaction ev)
   \<or> transactions (handleLockEvent P E config ev b)
     = (transactions b)(bt_id (ev_transaction ev) \<mapsto> (ev_transaction ev)\<lparr>status := FAILED\<rparr>)"
proof -
  let ?tx = "ev_transaction ev"
  let ?b1 = "b\<lparr>transactions := (transactions b)(bt_id ?tx \<mapsto> ?tx)\<rparr>"
  let ?b2 = "foldl (\<lambda>s e. deliverNested P E config e s) ?b1 (snd (verifyTransaction P E ?tx config))"
  have n: "transactions ?b2 = (transactions b)(bt_id ?tx \<mapsto> ?tx)
         \<or> (\<not> isValid (fst (verifyTransaction P E ?tx config))
            \<and> transactions ?b2 = (transactions b)(bt_id ?tx \<mapsto> ?tx\<lparr>status := FAILED\<rparr>))"
    by (rule verifyTransaction_nested_store) simp
  have h: "handleLockEvent P E config ev b
             = (if isValid (fst (verifyTransaction P E ?tx config))
                then snd (mintOnTargetChain P E ?tx ?b2) else ?b2)"
    by (simp add: handleLockEvent_def Let_def split_def)
  have "transactions (handleLockEvent P E config ev b) = transactions ?b2"
    by (cases "isValid (fst (verifyTransaction P E ?tx config))")
       (simp_all add: h mintOnTargetChain_store)
  then show ?thesis using n by auto
qed

lemma handleBurnEvent_store:
  "\<exists>t. transactions (handleBurnEvent P E config ev b)
          = (transactions b)(bt_id (ev_transaction ev) \<mapsto> t)
       \<and> bt_id t = bt_id (ev_transaction ev)
       \<and> (status t = status (ev_transaction ev) \<or> status t = FAILED
          \<or> (status t = RELEASED \<and> isValid (fst (verifyTransaction P E (ev_transaction ev) config))))"
proof -
  let ?tx = "ev_transaction ev"
  let ?b1 = "b\<lparr>transactions := (transactions b)(bt_id ?tx \<mapsto> ?tx)\<rparr>"
  let ?b2 = "foldl (\<lambda>s e. deliverNested P E config e s) ?b1 (snd (verifyTransaction P E ?tx config))"
  have n: "transactions ?b2 = (transactions b)(bt_id ?tx \<mapsto> ?tx)
         \<or> (\<not> isValid (fst (verifyTransaction P E ?tx config))
            \<and> transactions ?b2 = (transactions b)(bt_id ?tx \<mapsto> ?tx\<lparr>status := FAILED\<rparr>))"
    by (rule verifyTransaction_nested_store) simp
  have h: "handleBurnEvent P E config ev b
             = (if isValid (fst (verifyTransaction P E ?tx config))
                then snd (releaseOnAlgorand P E config ?tx ?b2) else ?b2)"
    by (simp add: handleBurnEvent_def Let_def split_def)
  show ?thesis
  proof (cases "isValid (fst (verifyTransaction P E ?tx config))")
    case True
    then have s: "transactions ?b2 = (transactions b)(bt_id ?tx \<mapsto> ?tx)" using n by blast
    from releaseOnAlgorand_store [of P E config ?tx ?b2] show ?thesis
    proof
      assume "transactions (snd (releaseOnAlgorand P E config ?tx ?b2)) = transactions ?b2"
      then show ?thesis using True h s by auto
    next
      assume "\<exists>h. transactions (snd (releaseOnAlgorand P E config ?tx ?b2))
            = (transactions ?b2)(bt_id ?tx \<mapsto> ?tx\<lparr>status := RELEASED, targetTransactionId := Some h\<rparr>)"
      then obtain x where "transactions (snd (releaseOnAlgorand P E config ?tx ?b2))
            = (transactions ?b2)(bt_id ?tx \<mapsto> ?tx\<lparr>status := RELEASED, targetTransactionId := Some x\<rparr>)"
        by blast
      then have "transactions (handleBurnEvent P E config ev b)
            = (transactions b)(bt_id ?tx \<mapsto> ?tx\<lparr>status := RELEASED, targetTransactionId := Some x\<rparr>)"
        using True h s by simp
      then show ?thesis using True
        by (intro exI [of _ "?tx\<lparr>status := RELEASED, targetTransactionId := Some x\<rparr>"]) simp
    qed
  next
    case False
    then have "handleBurnEvent P E config ev b = ?b2" using h by simp
    then show ?thesis using n
      by (auto intro: exI [of _ "?tx"] exI [of _ "?tx\<lparr>status := FAILED\<rparr>"])
  qed
qed

lemma handleVerificationEvent_other:
  assumes "\<forall>t. transactions b (bt_id (ev_transaction ev)) = Some t
               \<longrightarrow> bt_id t = bt_id (ev_transaction ev)"
    and "k \<noteq> bt_id (ev_transaction ev)"
  shows "transactions (handleVerificationEvent ev b) k = transactions b k"
proof (cases "transactions b (bt_id (ev_transaction ev))")
  case None
  then show ?thesis by (simp add: handleVerificationEvent_store)
next
  case (Some tx)
  then have "bt_id tx = bt_id (ev_transaction ev)" using assms(1) by blast
  then show ?thesis using Some assms(2) by (simp add: handleVerificationEvent_store)
qed

lemma handleVerificationEvent_status:
  assumes "\<forall>t. transactions b (bt_id (ev_transaction ev)) = Some t
               \<longrightarrow> bt_id t = bt_id (ev_transaction ev)"
    and "transactions b (bt_id (ev_transaction ev)) \<noteq> None"
  shows "map_option status (transactions (handleVerificationEvent ev b) (bt_id (ev_transaction ev)))
           = Some (status (ev_transaction ev))"
proof -
  from assms(2) obtain tx where tx: "transactions b (bt_id (ev_transaction ev)) = Some tx" by blast
  then have "bt_id tx = bt_id (ev_transaction ev)" using assms(1) by blast
  then show ?thesis using tx by (simp add: handleVerificationEvent_store)
qed

lemma handleBridgeEvent_other:
  assumes "\<forall>t. transactions b (bt_id (ev_transaction ev)) = Some t
               \<longrightarrow> bt_id t = bt_id (ev_transaction ev)"
    and k: "k \<noteq> bt_id (ev_transaction ev)"
  shows "transactions (handleBridgeEvent P E config ev b) k = transactions b k"
proof (cases "ev_type ev")
  case LOCK
  from handleLockEvent_store [of P E config ev b] obtain t' where
    "transactions (handleLockEvent P E config ev b)
       = (transactions b)(bt_id (ev_transaction ev) \<mapsto> t')" by blast
  then show ?thesis using LOCK k by (simp add: handleBridgeEvent_def)
next
  case BURN
  from handleBurnEvent_store [of P E config ev b] obtain t' where
    "transactions (handleBurnEvent P E config ev b)
       = (transactions b)(bt_id (ev_transaction ev) \<mapsto> t')" by blast
  then show ?thesis using BURN k by (simp add: handleBridgeEvent_def)
next
  case VERIFICATION
  then show ?thesis using handleVerificationEvent_other [OF assms]
    by (simp add: handleBridgeEvent_def)
next
  case TIMEOUT
  then show ?thesis using k by (simp add: handleBridgeEvent_def handleTimeoutEvent_store)
next
  case MINT
  then show ?thesis by (simp add: handleBridgeEvent_def)
next
  case RELEASE
  then show ?thesis by (simp add: handleBridgeEvent_def)
next
  case ERROR
  then show ?thesis by (simp add: handleBridgeEvent_def)
qed

lemma example_verification_invalid:
  "verifyTransaction example_primitives example_env example_transaction example_config
     = (\<lparr>isValid = False, signatures = [], vr_timestamp = 1700000000000, vr_error = None\<rparr>,
        [\<lparr>ev_type = VERIFICATION, ev_transaction = example_transaction,
          ev_timestamp = 1700000000000, details = VerificationDetails False []\<rparr>])"
  by (simp add: verifyTransaction_def collectVerifierSignatures_Nil isTransactionTimedOut_def
      example_env_def example_config_def example_transaction_def)



section \<open>Properties of the transaction lifecycle\<close>


lemma run_snoc:
  "run P config (steps @ [(E, ev)]) b = handleBridgeEvent P E config ev (run P config steps b)"
  by (simp add: run_def)


text \<open>
  The event the lock operation delivers to the bridge is unfinished: its transaction is
  \<open>PENDING\<close>. The burn operation delivers none.
\<close>

lemma lockCarbonCredits_delivers:
  "snd (lockCarbonCredits P E config s r a b) = b\<lparr>calls := calls b @ [LockCall s r a]\<rparr>
   \<or> (\<exists>ev. ev_type ev = LOCK \<and> status (ev_transaction ev) = PENDING \<and> unfinished ev
          \<and> snd (lockCarbonCredits P E config s r a b)
              = handleLockEvent P E config ev (b\<lparr>calls := calls b @ [LockCall s r a]\<rparr>))"
proof (cases "bridgeAccount config")
  case None
  then show ?thesis by (simp add: lockCarbonCredits_def Let_def)
next
  case (Some account)
  show ?thesis
  proof (cases "getTransactionParams E")
    case (Inl message)
    then show ?thesis using Some by (simp add: lockCarbonCredits_def Let_def)
  next
    case (Inr firstRound)
    show ?thesis
    proof (cases "buildLockGroup E s r a")
      case (Inl message)
      then show ?thesis using Some Inr by (simp add: lockCarbonCredits_def Let_def)
    next
      case built: (Inr txnGroup)
      let ?ev = "\<lparr>ev_type = LOCK,
                  ev_transaction =
                    \<lparr>bt_id = generateBridgeId E, sourceChain = ALGORAND,
                     targetChain = targetChainType config,
                     sourceAssetId = carbonAssetId config,
                     targetAssetId = tokenContractAddress config,
                     amount = a, sender = s, receiver = r,
                     status = PENDING, sourceTransactionId = None,
                     targetTransactionId = None,
                     timestamp = Num (dateNow E), nonce = firstRound\<rparr>,
                  ev_timestamp = dateNow E, details = SubmissionDetails txnGroup\<rparr>"
      have "snd (lockCarbonCredits P E config s r a b)
              = handleLockEvent P E config ?ev (b\<lparr>calls := calls b @ [LockCall s r a]\<rparr>)"
        using Some Inr built by (simp add: lockCarbonCredits_def Let_def)
      moreover have "ev_type ?ev = LOCK \<and> status (ev_transaction ?ev) = PENDING \<and> unfinished ?ev"
        by (simp add: unfinished_def)
      ultimately show ?thesis by blast
    qed
  qed
qed

lemma burnWrappedCarbonCredits_emits_nothing:
  "snd (burnWrappedCarbonCredits P E config s r a b) = b\<lparr>calls := calls b @ [BurnCall s r a]\<rparr>"
  by (simp add: burnWrappedCarbonCredits_def Let_def)



text \<open>
  C4, as stated, on a failed transaction, in a bridge whose application listens on
  \<open>error\<close>: a timeout event leaves the stored status of \<open>bridge-1\<close> \<open>FAILED\<close>; then a
  lock event for the same id is handled (its verification does not reach the quorum), or
  a verification event for it, and the stored status is \<open>PENDING\<close>, the status of the
  event's transaction. No step needs a chain operation to succeed.
\<close>

theorem later_events_overwrite_failed:
  "map_option status
     (transactions (run example_primitives example_config [(example_env, example_timeout_event)]
        example_bridge) ''bridge-1'') = Some FAILED
   \<and> map_option status
       (transactions (run example_primitives example_config
           [(example_env, example_timeout_event), (example_env, example_lock_event)] example_bridge)
          ''bridge-1'') = Some PENDING
   \<and> map_option status
       (transactions (run example_primitives example_config
           [(example_env, example_timeout_event), (example_env, example_verification_event)] example_bridge)
          ''bridge-1'') = Some PENDING"
proof -
  have id: "bt_id example_transaction = ''bridge-1''" "status example_transaction = PENDING"
       "sourceChain example_transaction = ALGORAND"
    by (simp_all add: example_transaction_def)
  have t: "ev_type example_timeout_event = TIMEOUT"
       "ev_transaction example_timeout_event = example_transaction"
    by (simp_all add: example_timeout_event_def)
  have l: "ev_type example_lock_event = LOCK"
       "ev_transaction example_lock_event = example_transaction"
    by (simp_all add: example_lock_event_def)
  have v: "ev_type example_verification_event = VERIFICATION"
       "ev_transaction example_verification_event = example_transaction"
    by (simp_all add: example_verification_event_def)
  have one: "transactions (run example_primitives example_config [(example_env, example_timeout_event)]
                 example_bridge)
        = [''bridge-1'' \<mapsto> example_transaction\<lparr>status := FAILED\<rparr>]"
    by (simp add: run_def handleBridgeEvent_def t handleTimeoutEvent_store id example_bridge_def newBridge_def)
  have lock: "transactions (run example_primitives example_config
           [(example_env, example_timeout_event), (example_env, example_lock_event)] example_bridge)
        = [''bridge-1'' \<mapsto> example_transaction]"
  proof -
    have "run example_primitives example_config
           [(example_env, example_timeout_event), (example_env, example_lock_event)] example_bridge
        = handleLockEvent example_primitives example_env example_config example_lock_event
            (run example_primitives example_config [(example_env, example_timeout_event)] example_bridge)"
      using run_snoc [of example_primitives example_config "[(example_env, example_timeout_event)]"
          example_env example_lock_event example_bridge] l
      by (simp add: handleBridgeEvent_def)
    then show ?thesis
      by (simp add: handleLockEvent_def l example_verification_invalid deliverNested_def
          handleVerificationEvent_def one id Let_def)
  qed
  have ver: "transactions (run example_primitives example_config
           [(example_env, example_timeout_event), (example_env, example_verification_event)] example_bridge)
        = [''bridge-1'' \<mapsto> example_transaction]"
  proof -
    have "run example_primitives example_config
           [(example_env, example_timeout_event), (example_env, example_verification_event)] example_bridge
        = handleVerificationEvent example_verification_event
            (run example_primitives example_config [(example_env, example_timeout_event)] example_bridge)"
      using run_snoc [of example_primitives example_config "[(example_env, example_timeout_event)]"
          example_env example_verification_event example_bridge] v
      by (simp add: handleBridgeEvent_def)
    then show ?thesis
      by (simp add: handleVerificationEvent_store v one id spread_def example_transaction_def)
  qed
  show ?thesis by (simp add: one lock ver id)
qed

lemma handleLockEvent_status:
  "map_option status (transactions (handleLockEvent P E config ev b) (bt_id (ev_transaction ev)))
     = Some (status (ev_transaction ev))
   \<or> map_option status (transactions (handleLockEvent P E config ev b) (bt_id (ev_transaction ev)))
     = Some FAILED"
  using handleLockEvent_store [of P E config ev b] by auto

lemma handleBurnEvent_status:
  "map_option status (transactions (handleBurnEvent P E config ev b) (bt_id (ev_transaction ev)))
     = Some (status (ev_transaction ev))
   \<or> map_option status (transactions (handleBurnEvent P E config ev b) (bt_id (ev_transaction ev)))
     = Some FAILED
   \<or> (map_option status (transactions (handleBurnEvent P E config ev b) (bt_id (ev_transaction ev)))
         = Some RELEASED
       \<and> isValid (fst (verifyTransaction P E (ev_transaction ev) config)))"
proof -
  from handleBurnEvent_store [of P E config ev b] obtain t where
    "transactions (handleBurnEvent P E config ev b) = (transactions b)(bt_id (ev_transaction ev) \<mapsto> t)"
    "status t = status (ev_transaction ev) \<or> status t = FAILED
       \<or> (status t = RELEASED \<and> isValid (fst (verifyTransaction P E (ev_transaction ev) config)))"
    by blast
  then show ?thesis by auto
qed

text \<open>
  C4, amended. Let the record stored under the event's transaction id, if any, carry
  that id (every write of the bridge keeps this). Then handling an event changes no
  record stored under another id, and a mint, release or error event changes no record
  at all. For the event's own id there is no guard on the stored status, whatever it
  was: a timeout event leaves it \<open>FAILED\<close> (so \<open>FAILED\<close> stays, \<open>MINTED\<close> and \<open>RELEASED\<close>
  do not); a verification event for a stored id leaves it equal to the status of the
  event's transaction snapshot; a lock event leaves it equal to the status of the
  event's snapshot, or \<open>FAILED\<close>; and a burn event leaves it equal to the status of the
  event's snapshot, or \<open>FAILED\<close>, or \<open>RELEASED\<close> after a valid verification.
\<close>

theorem events_and_stored_status:
  assumes "\<forall>t. transactions b (bt_id (ev_transaction ev)) = Some t
               \<longrightarrow> bt_id t = bt_id (ev_transaction ev)"
  shows "(k \<noteq> bt_id (ev_transaction ev)
            \<longrightarrow> transactions (handleBridgeEvent P E config ev b) k = transactions b k)
       \<and> (ev_type ev = MINT \<or> ev_type ev = RELEASE \<or> ev_type ev = ERROR
            \<longrightarrow> transactions (handleBridgeEvent P E config ev b) = transactions b)
       \<and> (ev_type ev = TIMEOUT
            \<longrightarrow> map_option status (transactions (handleBridgeEvent P E config ev b)
                                     (bt_id (ev_transaction ev))) = Some FAILED)
       \<and> (ev_type ev = VERIFICATION \<and> transactions b (bt_id (ev_transaction ev)) \<noteq> None
            \<longrightarrow> map_option status (transactions (handleBridgeEvent P E config ev b)
                                     (bt_id (ev_transaction ev)))
                 = Some (status (ev_transaction ev)))
       \<and> (ev_type ev = LOCK
            \<longrightarrow> map_option status (transactions (handleBridgeEvent P E config ev b)
                                     (bt_id (ev_transaction ev)))
                   = Some (status (ev_transaction ev))
                \<or> map_option status (transactions (handleBridgeEvent P E config ev b)
                                     (bt_id (ev_transaction ev)))
                   = Some FAILED)
       \<and> (ev_type ev = BURN
            \<longrightarrow> map_option status (transactions (handleBridgeEvent P E config ev b)
                                     (bt_id (ev_transaction ev)))
                   = Some (status (ev_transaction ev))
                \<or> map_option status (transactions (handleBridgeEvent P E config ev b)
                                     (bt_id (ev_transaction ev)))
                   = Some FAILED
                \<or> (map_option status (transactions (handleBridgeEvent P E config ev b)
                                     (bt_id (ev_transaction ev)))
                      = Some RELEASED
                    \<and> isValid (fst (verifyTransaction P E (ev_transaction ev) config))))"
proof (intro conjI impI)
  assume "k \<noteq> bt_id (ev_transaction ev)"
  then show "transactions (handleBridgeEvent P E config ev b) k = transactions b k"
    using assms by (rule handleBridgeEvent_other [rotated])
next
  assume "ev_type ev = MINT \<or> ev_type ev = RELEASE \<or> ev_type ev = ERROR"
  then show "transactions (handleBridgeEvent P E config ev b) = transactions b"
    by (auto simp add: handleBridgeEvent_def)
next
  assume "ev_type ev = TIMEOUT"
  then show "map_option status (transactions (handleBridgeEvent P E config ev b)
                                     (bt_id (ev_transaction ev))) = Some FAILED"
    by (simp add: handleBridgeEvent_def handleTimeoutEvent_store)
next
  assume a: "ev_type ev = VERIFICATION \<and> transactions b (bt_id (ev_transaction ev)) \<noteq> None"
  then have "transactions b (bt_id (ev_transaction ev)) \<noteq> None" by blast
  from handleVerificationEvent_status [OF assms this] a
  show "map_option status (transactions (handleBridgeEvent P E config ev b)
                                     (bt_id (ev_transaction ev)))
                 = Some (status (ev_transaction ev))"
    by (simp add: handleBridgeEvent_def)
next
  assume "ev_type ev = LOCK"
  then have "handleBridgeEvent P E config ev b = handleLockEvent P E config ev b"
    by (simp add: handleBridgeEvent_def)
  then show "map_option status (transactions (handleBridgeEvent P E config ev b)
                                     (bt_id (ev_transaction ev)))
                   = Some (status (ev_transaction ev))
                \<or> map_option status (transactions (handleBridgeEvent P E config ev b)
                                     (bt_id (ev_transaction ev)))
                   = Some FAILED"
    using handleLockEvent_status [of P E config ev b] by (simp only:)
next
  assume "ev_type ev = BURN"
  then have "handleBridgeEvent P E config ev b = handleBurnEvent P E config ev b"
    by (simp add: handleBridgeEvent_def)
  then show "map_option status (transactions (handleBridgeEvent P E config ev b)
                                     (bt_id (ev_transaction ev)))
                   = Some (status (ev_transaction ev))
                \<or> map_option status (transactions (handleBridgeEvent P E config ev b)
                                     (bt_id (ev_transaction ev)))
                   = Some FAILED
                \<or> (map_option status (transactions (handleBridgeEvent P E config ev b)
                                     (bt_id (ev_transaction ev)))
                      = Some RELEASED
                    \<and> isValid (fst (verifyTransaction P E (ev_transaction ev) config)))"
    using handleBurnEvent_status [of P E config ev b] by (simp only:)
qed

theorem events_and_stored_status_witness:
  "transactions (handleBridgeEvent example_primitives example_env open_config example_timeout_event
        (newBridge\<lparr>transactions := [''bridge-1'' \<mapsto> example_transaction\<lparr>status := FAILED\<rparr>,
                                    ''bridge-2'' \<mapsto> example_transaction\<lparr>bt_id := ''bridge-2''\<rparr>]\<rparr>))
      ''bridge-2'' = Some (example_transaction\<lparr>bt_id := ''bridge-2''\<rparr>)
   \<and> map_option status
       (transactions (handleBridgeEvent example_primitives example_env open_config example_timeout_event
          (newBridge\<lparr>transactions := [''bridge-1'' \<mapsto> example_transaction\<lparr>status := FAILED\<rparr>,
                                      ''bridge-2'' \<mapsto> example_transaction\<lparr>bt_id := ''bridge-2''\<rparr>]\<rparr>))
        ''bridge-1'') = Some FAILED"
proof -
  let ?b = "newBridge\<lparr>transactions := [''bridge-1'' \<mapsto> example_transaction\<lparr>status := FAILED\<rparr>,
                                    ''bridge-2'' \<mapsto> example_transaction\<lparr>bt_id := ''bridge-2''\<rparr>]\<rparr>"
  have e: "ev_type example_timeout_event = TIMEOUT"
          "bt_id (ev_transaction example_timeout_event) = ''bridge-1''"
    by (simp_all add: example_timeout_event_def example_transaction_def)
  have h: "\<forall>t. transactions ?b (bt_id (ev_transaction example_timeout_event)) = Some t
               \<longrightarrow> bt_id t = bt_id (ev_transaction example_timeout_event)"
    by (simp add: e example_transaction_def)
  from events_and_stored_status [OF h, of "''bridge-2''" example_primitives example_env open_config]
  show ?thesis by (simp add: e)
qed

section \<open>Properties of the public operations\<close>

lemma failed_failureResult [simp]: "failed_result (failureResult i m)"
  by (simp add: failed_result_def failureResult_def)

lemma releaseCarbonCredits_result:
  "success (fst (releaseCarbonCredits E config i r a b))
   \<or> failed_result (fst (releaseCarbonCredits E config i r a b))"
  by (simp add: releaseCarbonCredits_def Let_def split: option.splits sum.splits)

lemma lockCarbonCredits_result:
  "success (fst (lockCarbonCredits P E config s r a b))
   \<or> failed_result (fst (lockCarbonCredits P E config s r a b))"
  by (simp add: lockCarbonCredits_def Let_def split: option.splits sum.splits)

lemma burnWrappedCarbonCredits_result:
  "success (fst (burnWrappedCarbonCredits P E config s r a b))
   \<or> failed_result (fst (burnWrappedCarbonCredits P E config s r a b))"
  by (simp add: burnWrappedCarbonCredits_def Let_def)

lemma bridgeToAlgorand_result:
  "success (fst (bridgeToAlgorand P E config s r a b))
   \<or> failed_result (fst (bridgeToAlgorand P E config s r a b))"
  using burnWrappedCarbonCredits_result
  by (simp add: bridgeToAlgorand_def split: sum.splits)

lemma bridgeToTargetChain_result:
  assumes "errorListener b"
  shows "\<exists>r. fst (bridgeToTargetChain P E config s r' a m b) = Inr r \<and> (success r \<or> failed_result r)"
proof (cases "bridgeToTargetChain_try P E config s r' a m b")
  case (Inl message)
  then show ?thesis using assms by (simp add: bridgeToTargetChain_def emitError_def)
next
  case (Inr p)
  then obtain res b1 where p: "p = (res, b1)" by (cases p)
  have "p = lockCarbonCredits P E config (projr (formatAddress P s ALGORAND))
              (projr (formatAddress P r' (targetChainType config)))
              (toNumber P (newBigNumber P a)) b"
    using Inr
    by (auto simp add: bridgeToTargetChain_try_def Let_def split: if_splits sum.splits option.splits)
  then have "success res \<or> failed_result res"
    using lockCarbonCredits_result [of P E config "projr (formatAddress P s ALGORAND)"
        "projr (formatAddress P r' (targetChainType config))" "toNumber P (newBigNumber P a)" b] p
    by (metis fst_conv)
  then show ?thesis using Inr p by (simp add: bridgeToTargetChain_def)
qed

text \<open>
  What \<open>bridgeToTargetChain\<close> does on the inputs its validation rejects, when a
  listener is subscribed to \<open>error\<close>: the failure result, and the bridge state as it was
  (no lock call, no stored transaction).
\<close>

lemma bridgeToTargetChain_invalid_input:
  assumes "s = [] \<or> r = [] \<or> falsy a \<or> bn_isNaN (newBigNumber P a)
           \<or> \<not> bn_isPositive (newBigNumber P a)
           \<or> (\<exists>md e. m = Some md \<and> validateCarbonMetadata md = Some e)"
  shows "\<exists>message. bridgeToTargetChain_try P E config s r a m b = Inl message \<and> message \<noteq> []"
  using assms
  by (auto simp add: bridgeToTargetChain_try_def Let_def formatAddress_def
      split: sum.splits option.splits ChainType.splits)

lemma bridgeToTargetChain_invalid_input_result:
  assumes "s = [] \<or> r = [] \<or> falsy a \<or> bn_isNaN (newBigNumber P a)
           \<or> \<not> bn_isPositive (newBigNumber P a)
           \<or> (\<exists>md e. m = Some md \<and> validateCarbonMetadata md = Some e)"
    and "errorListener b"
  shows "\<exists>res. bridgeToTargetChain P E config s r a m b = (Inr res, b) \<and> failed_result res"
proof -
  from bridgeToTargetChain_invalid_input [OF assms(1)] obtain message where
    "bridgeToTargetChain_try P E config s r a m b = Inl message" by blast
  then show ?thesis using assms(2) by (simp add: bridgeToTargetChain_def emitError_def)
qed

text \<open>
  C7, at an amount of zero given as a BigNumber (the string \<open>"0"\<close> takes the same path):
  the amount is not positive, yet the call passes the validation, invokes the lock on
  Algorand, returns a \<open>PENDING\<close> success, and the lock event stores a transaction. The
  test \<open>!bnAmount.isPositive()\<close> is a sign test: among the zeros it rejects only the
  negative one; \<open>!amount\<close> catches only the number 0.
\<close>

theorem bridgeToTargetChain_accepts_zero_amount:
  "bn_value (newBigNumber example_primitives (BigNumberArg (BFin 0))) = 0
   \<and> fst (bridgeToTargetChain example_primitives example_env example_config
             ''ALICE'' ''0xB0b'' (BigNumberArg (BFin 0)) None newBridge)
       = Inr \<lparr>success = True, transactionId = [], bridgeId = ''bridge-1'',
              br_status = PENDING, br_error = None\<rparr>
   \<and> calls (snd (bridgeToTargetChain example_primitives example_env example_config
                   ''ALICE'' ''0xB0b'' (BigNumberArg (BFin 0)) None newBridge))
       = [LockCall ''ALICE'' ''0xB0b'' (BFin 0)]
   \<and> map_option status
        (transactions (snd (bridgeToTargetChain example_primitives example_env example_config
                              ''ALICE'' ''0xB0b'' (BigNumberArg (BFin 0)) None newBridge))
           ''bridge-1'') = Some PENDING"
proof -
  have f: "formatAddress example_primitives ''ALICE'' ALGORAND = Inr ''ALICE''"
          "formatAddress example_primitives ''0xB0b'' (targetChainType example_config) = Inr ''0xB0b''"
    by (simp_all add: formatAddress_def example_primitives_def example_config_def)
  have n: "toNumber example_primitives (BFin 0) = BFin 0"
    by (simp add: example_primitives_def)
  let ?tx = "\<lparr>bt_id = ''bridge-1'', sourceChain = ALGORAND, targetChain = ETHEREUM,
               sourceAssetId = ''31566704'', targetAssetId = ''0xToken'', amount = BFin 0,
               sender = ''ALICE'', receiver = ''0xB0b'', status = PENDING,
               sourceTransactionId = None, targetTransactionId = None,
               timestamp = Num 1700000000000, nonce = Num 7\<rparr>"
  have v: "verifyTransaction example_primitives example_env ?tx example_config
     = (\<lparr>isValid = False, signatures = [], vr_timestamp = 1700000000000, vr_error = None\<rparr>,
        [\<lparr>ev_type = VERIFICATION, ev_transaction = ?tx,
          ev_timestamp = 1700000000000, details = VerificationDetails False []\<rparr>])"
    by (simp add: verifyTransaction_def collectVerifierSignatures_Nil isTransactionTimedOut_def
        example_env_def example_config_def)
  have e: "dateNow example_env = 1700000000000" "generateBridgeId example_env = ''bridge-1''"
     "getTransactionParams example_env = Inr (Num 7)"
     "buildLockGroup example_env = (\<lambda>s r a. Inr ''group'')"
    by (simp_all add: example_env_def)
  have c: "bridgeAccount example_config = Some ''BRIDGE''" "targetChainType example_config = ETHEREUM"
    "carbonAssetId example_config = ''31566704''" "tokenContractAddress example_config = ''0xToken''"
    by (simp_all add: example_config_def)
  have l: "lockCarbonCredits example_primitives example_env example_config ''ALICE'' ''0xB0b'' (BFin 0) newBridge
     = (\<lparr>success = True, transactionId = [], bridgeId = ''bridge-1'',
              br_status = PENDING, br_error = None\<rparr>,
        \<lparr>transactions = [''bridge-1'' \<mapsto> ?tx], errorListener = False,
         calls = [LockCall ''ALICE'' ''0xB0b'' (BFin 0)]\<rparr>)"
    by (simp add: lockCarbonCredits_def e c handleLockEvent_def v deliverNested_def
        handleVerificationEvent_def newBridge_def Let_def)
  have t: "bridgeToTargetChain_try example_primitives example_env example_config
             ''ALICE'' ''0xB0b'' (BigNumberArg (BFin 0)) None newBridge
           = Inr (lockCarbonCredits example_primitives example_env example_config ''ALICE'' ''0xB0b'' (BFin 0) newBridge)"
    using f n by (simp add: bridgeToTargetChain_try_def c)
  show ?thesis by (simp add: bridgeToTargetChain_def t l)
qed

text \<open>
  C10, at an empty sender on a bridge with no listener on \<open>error\<close> (its state after
  construction): the \<open>catch\<close> block of \<open>bridgeToTargetChain\<close> emits an \<open>error\<close> event,
  that emission throws, and the call ends in an exception instead of a result. The
  other three operations always return a result, of the failure shape when not
  successful (\<open>lockCarbonCredits_result\<close>, \<open>releaseCarbonCredits_result\<close>,
  \<open>bridgeToAlgorand_result\<close>), and so does \<open>bridgeToTargetChain\<close> once an \<open>error\<close>
  listener is subscribed (\<open>bridgeToTargetChain_result\<close>).
\<close>

theorem bridgeToTargetChain_rejects_without_error_listener:
  "errorListener newBridge = False
   \<and> bridgeToTargetChain example_primitives example_env example_config
        [] ''0xB0b'' (NumberArg (BFin 100)) None newBridge
       = (Inl ''Unhandled error.'', newBridge)"
  by (simp add: bridgeToTargetChain_def bridgeToTargetChain_try_def emitError_def newBridge_def)

end
